theory Spec2Isabelle
  imports Main
begin

section \<open>JavaScript values, strings and thrown values\<close>

text \<open>
  Request bodies are parsed JSON, so a field such as \<open>message\<close> or \<open>sessionId\<close> can hold any
  JSON value or be missing. Only the type tag and the truthiness of such a value are ever
  inspected by the code, so numbers are kept as integers and arrays and objects as one opaque
  constructor. A string is a list of 8-bit characters, read as the code units U+0000 to
  U+00FF: \<open>length\<close> is then JavaScript's \<open>.length\<close>, \<open>toLowerCase\<close> maps the
  capital letters of that range (A to Z, and U+00C0 to U+00DE without the multiplication
  sign U+00D7) to their small letters, and \<open>trim\<close> strips the white space and line
  terminators of that range: tab, line feed, vertical tab, form feed, carriage return, space
  and the no-break space U+00A0.
\<close>

datatype jsval =
    JUndefined
  | JNull
  | JBool bool
  | JNum int
  | JStr string
  | JObject

fun truthy :: "jsval \<Rightarrow> bool" where
  "truthy JUndefined = False"
| "truthy JNull = False"
| "truthy (JBool b) = b"
| "truthy (JNum n) = (n \<noteq> 0)"
| "truthy (JStr s) = (s \<noteq> [])"
| "truthy JObject = True"

fun is_string :: "jsval \<Rightarrow> bool" where
  "is_string (JStr s) = True"
| "is_string v = False"

text \<open>
  A thrown value is an \<open>Error\<close> with its message, the completion client's \<open>APIError\<close> (a
  subclass of \<open>Error\<close>) with its HTTP status and message, or something that is not an
  \<open>Error\<close> at all. \<open>error_message\<close> is \<open>None\<close> exactly where \<open>error instanceof Error\<close>
  is false.
\<close>

datatype thrown =
    Error string
  | APIError nat string
  | NonError

fun error_message :: "thrown \<Rightarrow> string option" where
  "error_message (Error m) = Some m"
| "error_message (APIError st m) = Some m"
| "error_message NonError = None"

definition char_code :: "char \<Rightarrow> nat" where
  "char_code c = of_char c"

definition is_upper :: "char \<Rightarrow> bool" where
  "is_upper c =
     ((65 \<le> char_code c \<and> char_code c \<le> 90) \<or>
      (192 \<le> char_code c \<and> char_code c \<le> 214) \<or>
      (216 \<le> char_code c \<and> char_code c \<le> 222))"

definition lower_char :: "char \<Rightarrow> char" where
  "lower_char c = (if is_upper c then char_of (char_code c + 32) else c)"

definition toLowerCase :: "string \<Rightarrow> string" where
  "toLowerCase s = map lower_char s"

definition is_space :: "char \<Rightarrow> bool" where
  "is_space c = (char_code c \<in> {9, 10, 11, 12, 13, 32, 160})"

definition trim :: "string \<Rightarrow> string" where
  "trim s = rev (dropWhile is_space (rev (dropWhile is_space s)))"

fun starts_with :: "string \<Rightarrow> string \<Rightarrow> bool" where
  "starts_with s [] = True"
| "starts_with [] (n # ns) = False"
| "starts_with (c # cs) (n # ns) = (c = n \<and> starts_with cs ns)"

text \<open>\<open>includes_str s needle\<close> is \<open>s.includes(needle)\<close>: the needle occurs as a contiguous run.\<close>

fun includes_str :: "string \<Rightarrow> string \<Rightarrow> bool" where
  "includes_str [] needle = (needle = [])"
| "includes_str (c # cs) needle = (starts_with (c # cs) needle \<or> includes_str cs needle)"

section \<open>Validation helpers (utils/validation.ts)\<close>

text \<open>
  \<open>uuidValidate\<close> is the \<open>validate\<close> function of the \<open>uuid\<close> package. It is a parameter of
  everything below: the theorems hold for whatever it accepts. \<open>uuid_pattern\<close> is the
  package's pattern (8-4-4-4-12 hexadecimal digits, a version digit 1 to 8, a variant digit
  in 8, 9, a, b, or the nil or the max identifier, letters in either case) and is the
  instance used where a concrete validator is needed.
\<close>

definition is_hex :: "char \<Rightarrow> bool" where
  "is_hex c = (let n = char_code (lower_char c) in (48 \<le> n \<and> n \<le> 57) \<or> (97 \<le> n \<and> n \<le> 102))"

fun hex_groups :: "nat list \<Rightarrow> string \<Rightarrow> bool" where
  "hex_groups [] s = (s = [])"
| "hex_groups [n] s = (length s = n \<and> list_all is_hex s)"
| "hex_groups (n # m # ms) s =
     (list_all is_hex (take n s) \<and> length (take n s) = n \<and>
      take 1 (drop n s) = ''-'' \<and> hex_groups (m # ms) (drop (Suc n) s))"

definition uuid_pattern :: "string \<Rightarrow> bool" where
  "uuid_pattern s =
     (let l = toLowerCase s in
      (hex_groups [8, 4, 4, 4, 12] l \<and>
       l ! 14 \<in> set ''12345678'' \<and> l ! 19 \<in> set ''89ab'') \<or>
      l = ''00000000-0000-0000-0000-000000000000'' \<or>
      l = ''ffffffff-ffff-ffff-ffff-ffffffffffff'')"

definition isValidUUID :: "(string \<Rightarrow> bool) \<Rightarrow> string \<Rightarrow> bool" where
  "isValidUUID uuidValidate str = uuidValidate str"

definition validateSessionId :: "(string \<Rightarrow> bool) \<Rightarrow> jsval \<Rightarrow> thrown + unit" where
  "validateSessionId uuidValidate sessionId =
     (case sessionId of
        JStr s \<Rightarrow>
          if s = [] then Inl (Error ''Session ID is required'')
          else if \<not> isValidUUID uuidValidate s then Inl (Error ''Invalid session ID format'')
          else Inr ()
      | _ \<Rightarrow> Inl (Error ''Session ID is required''))"

definition sanitizeErrorMessage :: "thrown \<Rightarrow> bool \<Rightarrow> string" where
  "sanitizeErrorMessage error isProduction =
     (if isProduction then
        (case error_message error of
           Some msg \<Rightarrow>
             (let message = toLowerCase msg in
              if includes_str message ''not found'' \<or> includes_str message ''conversation not found''
                then ''Conversation not found''
              else if includes_str message ''required'' \<or> includes_str message ''cannot be empty''
                then msg
              else if includes_str message ''api key'' \<or> includes_str message ''invalid''
                then ''Service configuration error''
              else if includes_str message ''rate limit''
                then ''Rate limit exceeded. Please try again later.''
              else if includes_str message ''database'' \<or> includes_str message ''prisma''
                then ''Database error. Please try again later.''
              else ''An unexpected error occurred. Please try again later.'')
         | None \<Rightarrow> ''An unexpected error occurred. Please try again later.'')
      else
        (case error_message error of
           Some msg \<Rightarrow> msg
         | None \<Rightarrow> ''An unexpected error occurred''))"

section \<open>The Record Store and the Completion Provider\<close>

text \<open>
  The two external collaborators. The Record Store is the Prisma client: two tables, the
  identifiers its \<open>uuid()\<close> default hands out (\<open>uuidGenerate\<close>, the n-th identifier it
  generates, a parameter), the creation time it stamps (a logical clock that every insert
  advances) and a schedule of injected failures: each store call consumes one entry of
  \<open>faults\<close>, \<open>Some e\<close> makes the call throw \<open>e\<close>, and past the end of the schedule every call
  succeeds. Constraint violations of the database are among the failures the schedule injects.
  Every call to a collaborator is appended to \<open>trace\<close>, so that the trace tells which
  input and output happened and in which order.
\<close>

datatype Sender = SUser | SAi

datatype Role = RUser | RAssistant | RSystem

record llm_message =
  role :: Role
  content :: string

record conversation_row =
  conv_id :: string
  conv_createdAt :: nat

record message_row =
  msg_id :: string
  conversationId :: string
  sender :: string
  msg_text :: string
  createdAt :: nat

datatype event =
    ConversationFindUnique string
  | ConversationCreate
  | MessageCreate string string string
  | MessageFindMany string
  | CompletionsCreate "llm_message list"

record world =
  conversation_table :: "conversation_row list"
  message_table :: "message_row list"
  uuid_count :: nat
  now :: nat
  faults :: "thrown option list"
  trace :: "event list"

datatype completion_message = CompletionMessage (message_content: "string option")

datatype completion_choice = Choice (choice_message: "completion_message option")

datatype completion = Completion (choices: "completion_choice list option")

text \<open>
  A call to the provider is rejected with a thrown value or resolves; \<open>Resolves None\<close> is a
  resolved call whose value is \<open>null\<close> or \<open>undefined\<close>.
\<close>

datatype provider_outcome = Rejects thrown | Resolves "completion option"

record env =
  uuidValidate :: "string \<Rightarrow> bool"
  uuidGenerate :: "nat \<Rightarrow> string"
  provider :: "llm_message list \<Rightarrow> provider_outcome"

definition next_fault :: "world \<Rightarrow> thrown option" where
  "next_fault w = (case faults w of [] \<Rightarrow> None | f # rest \<Rightarrow> f)"

definition store_call :: "event \<Rightarrow> (world \<Rightarrow> 'a \<times> world) \<Rightarrow> world \<Rightarrow> (thrown + 'a) \<times> world" where
  "store_call ev op w =
     (let w1 = w\<lparr>faults := tl (faults w), trace := trace w @ [ev]\<rparr> in
      case next_fault w of
        Some err \<Rightarrow> (Inl err, w1)
      | None \<Rightarrow> (case op w1 of (a, w2) \<Rightarrow> (Inr a, w2)))"

definition conversation_findUnique :: "string \<Rightarrow> world \<Rightarrow> (thrown + conversation_row option) \<times> world" where
  "conversation_findUnique ident =
     store_call (ConversationFindUnique ident)
       (\<lambda>w. (find (\<lambda>c. conv_id c = ident) (conversation_table w), w))"

definition conversation_create :: "env \<Rightarrow> world \<Rightarrow> (thrown + conversation_row) \<times> world" where
  "conversation_create e =
     store_call ConversationCreate
       (\<lambda>w. let c = \<lparr>conv_id = uuidGenerate e (uuid_count w), conv_createdAt = now w\<rparr>
            in (c, w\<lparr>conversation_table := conversation_table w @ [c],
                     uuid_count := uuid_count w + 1, now := now w + 1\<rparr>))"

definition message_create :: "env \<Rightarrow> string \<Rightarrow> string \<Rightarrow> string \<Rightarrow> world \<Rightarrow> (thrown + message_row) \<times> world" where
  "message_create e cid sndr txt =
     store_call (MessageCreate cid sndr txt)
       (\<lambda>w. let m = \<lparr>msg_id = uuidGenerate e (uuid_count w), conversationId = cid,
                     sender = sndr, msg_text = txt, createdAt = now w\<rparr>
            in (m, w\<lparr>message_table := message_table w @ [m],
                     uuid_count := uuid_count w + 1, now := now w + 1\<rparr>))"

text \<open>\<open>findMany\<close> with \<open>where: { conversationId }\<close> and \<open>orderBy: { createdAt: 'asc' }\<close>.\<close>

definition message_findMany :: "string \<Rightarrow> world \<Rightarrow> (thrown + message_row list) \<times> world" where
  "message_findMany cid =
     store_call (MessageFindMany cid)
       (\<lambda>w. (sort_key createdAt (filter (\<lambda>m. conversationId m = cid) (message_table w)), w))"

text \<open>Sequencing of calls that may throw: the first thrown value ends the sequence.\<close>

definition andThen :: "('s \<Rightarrow> (thrown + 'a) \<times> 's) \<Rightarrow> ('a \<Rightarrow> 's \<Rightarrow> (thrown + 'b) \<times> 's) \<Rightarrow> 's \<Rightarrow> (thrown + 'b) \<times> 's" where
  "andThen m f s = (case m s of (Inl e, s1) \<Rightarrow> (Inl e, s1) | (Inr a, s1) \<Rightarrow> f a s1)"

definition returns :: "'a \<Rightarrow> 's \<Rightarrow> (thrown + 'a) \<times> 's" where
  "returns a s = (Inr a, s)"

definition throws :: "thrown \<Rightarrow> 's \<Rightarrow> (thrown + 'a) \<times> 's" where
  "throws e s = (Inl e, s)"

definition lift_result :: "thrown + 'a \<Rightarrow> 's \<Rightarrow> (thrown + 'a) \<times> 's" where
  "lift_result r s = (r, s)"

section \<open>The completion service (services/llm.service.ts)\<close>

definition nl :: string where
  "nl = [CHR 0x0A]"

definition apostrophe :: string where
  "apostrophe = [CHR 0x27]"

definition SYSTEM_PROMPT :: string where
  "SYSTEM_PROMPT = concat
     [''You are a helpful and friendly customer support agent for an ecommerce store. '',
      ''Your goal is to assist customers with their questions and concerns in a professional, '',
      ''empathetic manner.'', nl, nl,
      ''Store Information:'', nl,
      ''- Shipping: We ship to USA, India, and Europe'', nl,
      ''- Delivery Time: 5-7 business days'', nl,
      ''- Returns: Accepted within 14 days of purchase'', nl,
      ''- Support Hours: Monday-Friday, 9am-6pm IST'', nl, nl,
      ''Guidelines:'', nl,
      ''- Be concise but thorough'', nl,
      ''- If you don'', apostrophe, ''t know something, acknowledge it and offer to help find the answer'', nl,
      ''- Always maintain a positive, helpful tone'', nl,
      ''- Use the customer'', apostrophe, ''s name if provided, otherwise use friendly language'', nl,
      ''- For shipping/returns questions, provide clear information based on the store policies above'']"

definition MAX_HISTORY :: nat where
  "MAX_HISTORY = 10"

text \<open>
  \<open>slice_from start xs\<close> is \<open>xs.slice(start)\<close>: a negative \<open>start\<close> counts from the end and
  is clamped at the beginning of the array, a positive one is clamped at its end.
\<close>

definition slice_from :: "int \<Rightarrow> 'a list \<Rightarrow> 'a list" where
  "slice_from start xs =
     (let len = int (length xs);
          k = (if start < 0 then max (len + start) 0 else min start len)
      in drop (nat k) xs)"

definition first_choice :: "completion \<Rightarrow> completion_choice option" where
  "first_choice response =
     (case choices response of None \<Rightarrow> None | Some [] \<Rightarrow> None | Some (c # cs) \<Rightarrow> Some c)"

definition choice_content :: "completion_choice \<Rightarrow> string option" where
  "choice_content choice =
     (case choice_message choice of None \<Rightarrow> None | Some m \<Rightarrow> message_content m)"

definition recentHistory :: "(Sender \<times> string) list \<Rightarrow> (Sender \<times> string) list" where
  "recentHistory conversationHistory = slice_from (- int MAX_HISTORY) conversationHistory"

text \<open>The \<open>messages\<close> array that \<open>generateResponse\<close> hands to the provider.\<close>

definition messages_for :: "(Sender \<times> string) list \<Rightarrow> llm_message list" where
  "messages_for conversationHistory =
     \<lparr>role = RSystem, content = SYSTEM_PROMPT\<rparr> #
     map (\<lambda>msg. \<lparr>role = (if fst msg = SUser then RUser else RAssistant), content = snd msg\<rparr>)
       (recentHistory conversationHistory)"

text \<open>
  The body of the \<open>try\<close> block of \<open>generateResponse\<close>. Reading \<open>choices\<close> of a response that
  is \<open>null\<close> or \<open>undefined\<close> throws a type error.
\<close>

definition generateResponse_try :: "env \<Rightarrow> (Sender \<times> string) list \<Rightarrow> world \<Rightarrow> (thrown + string) \<times> world" where
  "generateResponse_try e conversationHistory w =
     (let messages = messages_for conversationHistory;
          w1 = w\<lparr>trace := trace w @ [CompletionsCreate messages]\<rparr>
      in case provider e messages of
           Rejects err \<Rightarrow> (Inl err, w1)
         | Resolves None \<Rightarrow> (Inl (Error ''Cannot read properties of undefined''), w1)
         | Resolves (Some response) \<Rightarrow>
             (case first_choice response of
                None \<Rightarrow> (Inr ''Sorry, I was unable to generate a response. Please try again.'', w1)
              | Some choice \<Rightarrow>
                  (case choice_content choice of
                     None \<Rightarrow> (Inr ''Sorry, I was unable to generate a response. Please try again.'', w1)
                   | Some c \<Rightarrow>
                       if c = [] then (Inr ''Sorry, I was unable to generate a response. Please try again.'', w1)
                       else (Inr (trim c), w1))))"

text \<open>The \<open>catch\<close> block turns every thrown value into the fallback text.\<close>

definition generateResponse :: "env \<Rightarrow> (Sender \<times> string) list \<Rightarrow> world \<Rightarrow> (thrown + string) \<times> world" where
  "generateResponse e conversationHistory w =
     (case generateResponse_try e conversationHistory w of
        (Inl err, w1) \<Rightarrow>
          (Inr ''Our support agent is temporarily unavailable. Please try again shortly.'', w1)
      | (Inr text, w1) \<Rightarrow> (Inr text, w1))"

section \<open>The chat service (services/chat.service.ts)\<close>

record ChatMessage =
  message :: jsval
  sessionId :: jsval

record ChatResponse =
  reply :: string
  resp_sessionId :: string

record history_entry =
  entry_id :: string
  entry_sender :: Sender
  entry_text :: string
  entry_createdAt :: nat

record ConversationHistory =
  hist_messages :: "history_entry list"
  hist_sessionId :: string

definition MAX_MESSAGE_LENGTH :: nat where
  "MAX_MESSAGE_LENGTH = 5000"

definition digit_char :: "nat \<Rightarrow> char" where
  "digit_char d = ''0123456789'' ! d"

fun decimal :: "nat \<Rightarrow> string" where
  "decimal n = (if n < 10 then [digit_char n] else decimal (n div 10) @ [digit_char (n mod 10)])"

declare decimal.simps [simp del]

fun str_of :: "jsval \<Rightarrow> string" where
  "str_of (JStr s) = s"
| "str_of v = []"

text \<open>The stored sender is a string; anything but \<open>user\<close> and \<open>ai\<close> is read as \<open>ai\<close>.\<close>

definition typed_sender :: "string \<Rightarrow> Sender" where
  "typed_sender s = (if s = ''user'' then SUser else if s = ''ai'' then SAi else SAi)"

definition sender_string :: "Sender \<Rightarrow> string" where
  "sender_string s = (case s of SUser \<Rightarrow> ''user'' | SAi \<Rightarrow> ''ai'')"

definition typedHistory :: "message_row list \<Rightarrow> (Sender \<times> string) list" where
  "typedHistory history = map (\<lambda>msg. (typed_sender (sender msg), msg_text msg)) history"

definition newConversationId :: "env \<Rightarrow> world \<Rightarrow> (thrown + string) \<times> world" where
  "newConversationId e =
     andThen (conversation_create e) (\<lambda>newConversation. returns (conv_id newConversation))"

text \<open>
  The body of the \<open>try\<close> block of \<open>processMessage\<close>, in its two parts: getting or creating
  the conversation, and everything from saving the user message on.
\<close>

definition getOrCreateConversation :: "env \<Rightarrow> ChatMessage \<Rightarrow> world \<Rightarrow> (thrown + string) \<times> world" where
  "getOrCreateConversation e input =
     (if truthy (sessionId input) then
        andThen (lift_result (validateSessionId (uuidValidate e) (sessionId input)))
          (\<lambda>u. andThen (conversation_findUnique (str_of (sessionId input)))
            (\<lambda>existing. case existing of
                 None \<Rightarrow> newConversationId e
               | Some c \<Rightarrow> returns (str_of (sessionId input))))
      else newConversationId e)"

definition saveAndReply :: "env \<Rightarrow> string \<Rightarrow> string \<Rightarrow> world \<Rightarrow> (thrown + ChatResponse) \<times> world" where
  "saveAndReply e trimmedMessage convId =
     andThen (message_create e convId (sender_string SUser) trimmedMessage)
       (\<lambda>userRow. andThen (message_findMany convId)
         (\<lambda>history. andThen (generateResponse e (typedHistory history))
           (\<lambda>aiReply. andThen (message_create e convId (sender_string SAi) aiReply)
             (\<lambda>aiRow. returns \<lparr>reply = aiReply, resp_sessionId = convId\<rparr>))))"

definition processMessage_try :: "env \<Rightarrow> ChatMessage \<Rightarrow> string \<Rightarrow> world \<Rightarrow> (thrown + ChatResponse) \<times> world" where
  "processMessage_try e input trimmedMessage =
     andThen (getOrCreateConversation e input) (saveAndReply e trimmedMessage)"

text \<open>The \<open>catch\<close> block of \<open>processMessage\<close>: what is thrown on for a caught value.\<close>

definition rethrown_as_is :: "thrown \<Rightarrow> bool" where
  "rethrown_as_is error =
     (case error_message error of
        None \<Rightarrow> False
      | Some m \<Rightarrow>
          includes_str m ''required'' \<or> includes_str m ''cannot be empty'' \<or>
          includes_str m ''exceeds maximum'' \<or> includes_str m ''API key'' \<or>
          includes_str m ''Rate limit'')"

definition processMessage_catch :: "thrown \<Rightarrow> thrown" where
  "processMessage_catch error =
     (if rethrown_as_is error then error
      else Error ''Database error. Please try again later.'')"

definition processMessage :: "env \<Rightarrow> ChatMessage \<Rightarrow> world \<Rightarrow> (thrown + ChatResponse) \<times> world" where
  "processMessage e input w =
     (if \<not> truthy (message input) \<or> \<not> is_string (message input)
        then (Inl (Error ''Message is required and must be a string''), w)
      else
        let trimmedMessage = trim (str_of (message input)) in
        if length trimmedMessage = 0
          then (Inl (Error ''Message cannot be empty''), w)
        else if length trimmedMessage > MAX_MESSAGE_LENGTH
          then (Inl (Error (''Message exceeds maximum length of '' @ decimal MAX_MESSAGE_LENGTH @
                            '' characters'')), w)
        else
          (case processMessage_try e input trimmedMessage w of
             (Inl error, w1) \<Rightarrow> (Inl (processMessage_catch error), w1)
           | (Inr result, w1) \<Rightarrow> (Inr result, w1)))"

definition history_entry_of :: "message_row \<Rightarrow> history_entry" where
  "history_entry_of msg =
     \<lparr>entry_id = msg_id msg, entry_sender = typed_sender (sender msg),
      entry_text = msg_text msg, entry_createdAt = createdAt msg\<rparr>"

definition getConversationHistory_try :: "string \<Rightarrow> world \<Rightarrow> (thrown + ConversationHistory) \<times> world" where
  "getConversationHistory_try sid =
     andThen (conversation_findUnique sid)
       (\<lambda>conversation. case conversation of
            None \<Rightarrow> throws (Error ''Conversation not found'')
          | Some c \<Rightarrow>
              andThen (message_findMany sid)
                (\<lambda>msgs. returns \<lparr>hist_messages = map history_entry_of msgs, hist_sessionId = sid\<rparr>))"

definition getConversationHistory_catch :: "thrown \<Rightarrow> thrown" where
  "getConversationHistory_catch error =
     (case error_message error of
        None \<Rightarrow> Error ''Failed to fetch conversation history''
      | Some m \<Rightarrow>
          if includes_str m ''not found'' then error
          else Error ''Failed to fetch conversation history'')"

definition getConversationHistory :: "env \<Rightarrow> string \<Rightarrow> world \<Rightarrow> (thrown + ConversationHistory) \<times> world" where
  "getConversationHistory e sid w =
     (case validateSessionId (uuidValidate e) (JStr sid) of
        Inl error \<Rightarrow> (Inl error, w)
      | Inr u \<Rightarrow>
          (case getConversationHistory_try sid w of
             (Inl error, w1) \<Rightarrow> (Inl (getConversationHistory_catch error), w1)
           | (Inr result, w1) \<Rightarrow> (Inr result, w1)))"

section \<open>The routes (routes/chat.routes.ts)\<close>

datatype response_body =
    ReplyBody ChatResponse
  | HistoryBody ConversationHistory
  | ErrorBody string

record http_response =
  status :: nat
  body :: response_body

definition history_status :: "thrown \<Rightarrow> nat" where
  "history_status error =
     (case error_message error of
        None \<Rightarrow> 500
      | Some m \<Rightarrow>
          if includes_str m ''not found'' \<or> includes_str m ''required'' \<or>
             includes_str m ''Invalid session ID format''
          then 404 else 500)"

definition get_history :: "bool \<Rightarrow> env \<Rightarrow> string \<Rightarrow> world \<Rightarrow> http_response \<times> world" where
  "get_history isProduction e sid w =
     (case andThen (lift_result (validateSessionId (uuidValidate e) (JStr sid)))
             (\<lambda>u. getConversationHistory e sid) w of
        (Inr result, w1) \<Rightarrow> (\<lparr>status = 200, body = HistoryBody result\<rparr>, w1)
      | (Inl error, w1) \<Rightarrow>
          (\<lparr>status = history_status error,
            body = ErrorBody (sanitizeErrorMessage error isProduction)\<rparr>, w1))"

definition message_status :: "thrown \<Rightarrow> nat" where
  "message_status error =
     (case error_message error of
        None \<Rightarrow> 500
      | Some m \<Rightarrow>
          (let msg = toLowerCase m in
           if includes_str msg ''required'' \<or> includes_str msg ''cannot be empty'' \<or>
              includes_str msg ''invalid session''
             then 400
           else if includes_str msg ''api key'' \<or> includes_str msg ''rate limit''
             then 503
           else if includes_str msg ''exceeds maximum''
             then 400
           else 500))"

definition post_message :: "bool \<Rightarrow> env \<Rightarrow> ChatMessage \<Rightarrow> world \<Rightarrow> http_response \<times> world" where
  "post_message isProduction e req_body w =
     (case andThen
             (if truthy (sessionId req_body)
              then lift_result (validateSessionId (uuidValidate e) (sessionId req_body))
              else returns ())
             (\<lambda>u. processMessage e \<lparr>message = message req_body, sessionId = sessionId req_body\<rparr>) w of
        (Inr result, w1) \<Rightarrow> (\<lparr>status = 200, body = ReplyBody result\<rparr>, w1)
      | (Inl error, w1) \<Rightarrow>
          (\<lparr>status = message_status error,
            body = ErrorBody (sanitizeErrorMessage error isProduction)\<rparr>, w1))"

section \<open>Admission control (middleware/rateLimiter.ts and index.ts)\<close>

record request =
  http_method :: string
  path :: string
  body_sessionId :: jsval
  ip :: "string option"

record rate_limiter =
  windowMs :: nat
  max_requests :: nat
  limit_message :: string
  keyGenerator :: "request \<Rightarrow> jsval"
  skip :: "request \<Rightarrow> bool"

text \<open>
  The defaults of the rate-limiting package where a limiter sets no \<open>keyGenerator\<close> or
  \<open>skip\<close>: the key is the request's address and no request is skipped.
\<close>

definition default_key :: "request \<Rightarrow> jsval" where
  "default_key req = (case ip req of None \<Rightarrow> JUndefined | Some a \<Rightarrow> JStr a)"

definition never_skip :: "request \<Rightarrow> bool" where
  "never_skip req = False"

definition apiLimiter :: rate_limiter where
  "apiLimiter =
     \<lparr>windowMs = 15 * 60 * 1000, max_requests = 100,
      limit_message = ''Too many requests from this IP, please try again later.'',
      keyGenerator = default_key, skip = never_skip\<rparr>"

definition chatLimiter :: rate_limiter where
  "chatLimiter =
     \<lparr>windowMs = 15 * 60 * 1000, max_requests = 50,
      limit_message = ''Too many chat requests, please try again later.'',
      keyGenerator = default_key, skip = never_skip\<rparr>"

definition session_key :: "request \<Rightarrow> jsval" where
  "session_key req =
     (if truthy (body_sessionId req) then body_sessionId req
      else if truthy (default_key req) then default_key req
      else JStr ''unknown'')"

definition session_skip :: "request \<Rightarrow> bool" where
  "session_skip req = (http_method req = ''GET'')"

definition sessionLimiter :: rate_limiter where
  "sessionLimiter =
     \<lparr>windowMs = 15 * 60 * 1000, max_requests = 20,
      limit_message = ''Too many requests for this session. Please wait before sending another message.'',
      keyGenerator = session_key, skip = session_skip\<rparr>"

definition dailyLimiter :: rate_limiter where
  "dailyLimiter =
     \<lparr>windowMs = 24 * 60 * 60 * 1000, max_requests = 200,
      limit_message = ''Daily request limit exceeded. Please try again tomorrow.'',
      keyGenerator = default_key, skip = never_skip\<rparr>"

text \<open>
  The limiters a request meets, in the order in which the application registers them:
  \<open>app.use(apiLimiter)\<close> comes before every route, and the router mounted at \<open>/chat\<close> uses
  the daily, the per-address and the per-session limiter in that order before its handlers.
  The mount path is matched without regard to the case of letters.
\<close>

definition under_chat :: "string \<Rightarrow> bool" where
  "under_chat p =
     (let l = toLowerCase p in l = ''/chat'' \<or> starts_with l ''/chat/'')"

definition router_limiters :: "rate_limiter list" where
  "router_limiters = [dailyLimiter, chatLimiter, sessionLimiter]"

definition limiter_chain :: "request \<Rightarrow> rate_limiter list" where
  "limiter_chain req = apiLimiter # (if under_chat (path req) then router_limiters else [])"

definition evaluated_limiters :: "request \<Rightarrow> rate_limiter list" where
  "evaluated_limiters req = filter (\<lambda>l. \<not> skip l req) (limiter_chain req)"

section \<open>A sample environment\<close>

text \<open>
  A concrete store, validator, identifier generator and provider, on which the theorems below
  are instantiated.
\<close>

definition sample_uuid :: "nat \<Rightarrow> string" where
  "sample_uuid n =
     ''00000000-0000-4000-8000-'' @ replicate (12 - length (decimal n)) (CHR ''0'') @ decimal n"

definition completion_with :: "string \<Rightarrow> provider_outcome" where
  "completion_with txt = Resolves (Some (Completion (Some [Choice (Some (CompletionMessage (Some txt)))])))"

definition sample_env :: "provider_outcome \<Rightarrow> env" where
  "sample_env outcome =
     \<lparr>uuidValidate = uuid_pattern, uuidGenerate = sample_uuid, provider = (\<lambda>turns. outcome)\<rparr>"


definition empty_world :: world where
  "empty_world =
     \<lparr>conversation_table = [], message_table = [], uuid_count = 0, now = 0, faults = [], trace = []\<rparr>"

definition sample_input :: ChatMessage where
  "sample_input = \<lparr>message = JStr ''hello'', sessionId = JUndefined\<rparr>"

definition sample_conversation :: string where
  "sample_conversation = ''00000000-0000-4000-8000-000000000000''"

text \<open>
  The store after \<open>sample_input\<close> has been sent to the empty store and answered with the
  text \<open>txt\<close>.
\<close>

definition world_after :: "string \<Rightarrow> world" where
  "world_after txt =
     \<lparr>conversation_table = [\<lparr>conv_id = sample_conversation, conv_createdAt = 0\<rparr>],
      message_table =
        [\<lparr>msg_id = ''00000000-0000-4000-8000-000000000001'', conversationId = sample_conversation,
          sender = ''user'', msg_text = ''hello'', createdAt = 1\<rparr>,
         \<lparr>msg_id = ''00000000-0000-4000-8000-000000000002'', conversationId = sample_conversation,
          sender = ''ai'', msg_text = txt, createdAt = 2\<rparr>],
      uuid_count = 3, now = 3, faults = [],
      trace =
        [ConversationCreate,
         MessageCreate sample_conversation ''user'' ''hello'',
         MessageFindMany sample_conversation,
         CompletionsCreate (messages_for [(SUser, ''hello'')]),
         MessageCreate sample_conversation ''ai'' txt]\<rparr>"

text \<open>
  Twelve stored messages of one conversation, alternately from the user and the assistant;
  a store that holds the conversation and, in reverse order, these messages; a second message
  for that conversation, with blanks around it; and the store after that message has been
  sent and answered.
\<close>

definition sample_rows :: "message_row list" where
  "sample_rows = map (\<lambda>i. \<lparr>msg_id = sample_uuid (Suc i), conversationId = sample_conversation,
      sender = (if even i then ''user'' else ''ai''), msg_text = ''m'' @ decimal i,
      createdAt = Suc i\<rparr>) [0..<12]"

definition sample_store :: world where
  "sample_store =
     \<lparr>conversation_table = [\<lparr>conv_id = sample_conversation, conv_createdAt = 0\<rparr>],
      message_table = rev sample_rows, uuid_count = 13, now = 13, faults = [], trace = []\<rparr>"

definition sample_followup :: ChatMessage where
  "sample_followup = \<lparr>message = JStr ''  thanks  '', sessionId = JStr sample_conversation\<rparr>"

definition followup_row :: message_row where
  "followup_row =
     \<lparr>msg_id = ''00000000-0000-4000-8000-000000000013'', conversationId = sample_conversation,
      sender = ''user'', msg_text = ''thanks'', createdAt = 13\<rparr>"

definition sample_store_after :: world where
  "sample_store_after =
     \<lparr>conversation_table = [\<lparr>conv_id = sample_conversation, conv_createdAt = 0\<rparr>],
      message_table = rev sample_rows @
        [followup_row,
         \<lparr>msg_id = ''00000000-0000-4000-8000-000000000014'', conversationId = sample_conversation,
          sender = ''ai'', msg_text = ''Hi there!'', createdAt = 14\<rparr>],
      uuid_count = 15, now = 15, faults = [],
      trace =
        [ConversationFindUnique sample_conversation,
         MessageCreate sample_conversation ''user'' ''thanks'',
         MessageFindMany sample_conversation,
         CompletionsCreate (messages_for (typedHistory (sample_rows @ [followup_row]))),
         MessageCreate sample_conversation ''ai'' ''Hi there!'']\<rparr>"

text \<open>
  A store whose second call fails because the database refuses the connection, and the same
  store after \<open>sample_input\<close> has been sent to it.
\<close>

definition refused_world :: world where
  "refused_world = empty_world\<lparr>faults := [None, Some (Error ''connect ECONNREFUSED 127.0.0.1:5432'')]\<rparr>"

definition refused_world_after :: world where
  "refused_world_after =
     \<lparr>conversation_table = [\<lparr>conv_id = sample_conversation, conv_createdAt = 0\<rparr>],
      message_table = [], uuid_count = 1, now = 1, faults = [],
      trace = [ConversationCreate, MessageCreate sample_conversation ''user'' ''hello'']\<rparr>"

section \<open>Conditions on the store\<close>


definition clock_ok :: "world \<Rightarrow> bool" where
  "clock_ok w = list_all (\<lambda>m. createdAt m \<le> now w) (message_table w)"

text \<open>\<open>keeps_clock c\<close>: no run of \<open>c\<close> that starts with \<open>clock_ok\<close> ends without it.\<close>

definition keeps_clock :: "(world \<Rightarrow> (thrown + 'a) \<times> world) \<Rightarrow> bool" where
  "keeps_clock c = (\<forall>w r w1. c w = (r, w1) \<longrightarrow> clock_ok w \<longrightarrow> clock_ok w1)"

definition exists_conversation :: "string \<Rightarrow> world \<Rightarrow> bool" where
  "exists_conversation ident w = list_ex (\<lambda>c. conv_id c = ident) (conversation_table w)"

text \<open>
  \<open>consumed w w1 r\<close> relates the fault schedule before and after a computation to its
  result: a computation that returned has used up only entries that inject no failure, and one
  that threw \<open>f\<close> has used up such entries and then the entry that injects \<open>f\<close>.
  \<open>fails_only_by_fault c\<close>: every run of \<open>c\<close> is of this kind.
\<close>

definition consumed :: "world \<Rightarrow> world \<Rightarrow> thrown + 'a \<Rightarrow> bool" where
  "consumed w w1 r =
     (case r of
        Inr a \<Rightarrow> \<exists>k. faults w = replicate k None @ faults w1
      | Inl f \<Rightarrow> \<exists>k. faults w = replicate k None @ Some f # faults w1)"

definition fails_only_by_fault :: "(world \<Rightarrow> (thrown + 'a) \<times> world) \<Rightarrow> bool" where
  "fails_only_by_fault c = (\<forall>w r w1. c w = (r, w1) \<longrightarrow> consumed w w1 r)"

section \<open>Facts about strings\<close>

lemma starts_with_iff: "starts_with s n \<longleftrightarrow> (\<exists>q. s = n @ q)"
  by (induction s n rule: starts_with.induct) auto

lemma includes_str_iff: "includes_str s n \<longleftrightarrow> (\<exists>p q. s = p @ n @ q)"
proof (induction s)
  case Nil
  then show ?case by simp
next
  case (Cons c cs)
  show ?case
  proof
    assume "includes_str (c # cs) n"
    then consider "starts_with (c # cs) n" | "includes_str cs n" by auto
    then show "\<exists>p q. c # cs = p @ n @ q"
    proof cases
      case 1
      then obtain q where "c # cs = n @ q" using starts_with_iff by blast
      then have "c # cs = [] @ n @ q" by simp
      then show ?thesis by blast
    next
      case 2
      then obtain p q where "cs = p @ n @ q" using Cons.IH by blast
      then have "c # cs = (c # p) @ n @ q" by simp
      then show ?thesis by blast
    qed
  next
    assume "\<exists>p q. c # cs = p @ n @ q"
    then obtain p q where pq: "c # cs = p @ n @ q" by blast
    show "includes_str (c # cs) n"
    proof (cases p)
      case Nil
      with pq have "starts_with (c # cs) n" using starts_with_iff by auto
      then show ?thesis by simp
    next
      case (Cons a p')
      with pq have "cs = p' @ n @ q" by simp
      then have "includes_str cs n" using Cons.IH by blast
      then show ?thesis by simp
    qed
  qed
qed

lemma includes_str_suffix: "includes_str s (a @ b) \<Longrightarrow> includes_str s b"
proof -
  assume "includes_str s (a @ b)"
  then obtain p q where "s = p @ (a @ b) @ q" using includes_str_iff by blast
  then have "s = (p @ a) @ b @ q" by simp
  then show ?thesis using includes_str_iff by blast
qed

lemma not_found_longer:
  "includes_str s ''conversation not found'' \<Longrightarrow> includes_str s ''not found''"
  using includes_str_suffix [of s "''conversation ''" "''not found''"] by simp

lemma lower_invalid_format:
  "toLowerCase ''Invalid session ID format'' = ''invalid session id format''"
  by code_simp

lemma not_a_uuid: "\<not> uuid_pattern ''not-a-uuid''"
  by code_simp

section \<open>Facts about the store and the chat service\<close>

lemma store_call_Inr:
  "store_call ev op w = (Inr a, w2) \<longleftrightarrow>
   next_fault w = None \<and> op (w\<lparr>faults := tl (faults w), trace := trace w @ [ev]\<rparr>) = (a, w2)"
  by (auto simp: store_call_def Let_def split: option.splits prod.splits)

lemma store_call_Inl:
  "store_call ev op w = (Inl err, w2) \<longleftrightarrow>
   next_fault w = Some err \<and> w2 = w\<lparr>faults := tl (faults w), trace := trace w @ [ev]\<rparr>"
  by (auto simp: store_call_def Let_def split: option.splits prod.splits)

lemma andThen_Inr:
  "andThen m f s = (Inr b, s2) \<longleftrightarrow> (\<exists>a s1. m s = (Inr a, s1) \<and> f a s1 = (Inr b, s2))"
  by (auto simp: andThen_def split: prod.splits sum.splits)

lemma andThen_Inl:
  "andThen m f s = (Inl err, s2) \<longleftrightarrow>
   m s = (Inl err, s2) \<or> (\<exists>a s1. m s = (Inr a, s1) \<and> f a s1 = (Inl err, s2))"
  by (auto simp: andThen_def split: prod.splits sum.splits)

lemma generateResponse_total:
  "\<exists>txt. generateResponse e h w =
     (Inr txt, w\<lparr>trace := trace w @ [CompletionsCreate (messages_for h)]\<rparr>)"
  by (simp add: generateResponse_def generateResponse_try_def Let_def
      split: provider_outcome.splits option.splits)

lemma generateResponse_Inr:
  "generateResponse e h w = (Inr txt, w1) \<Longrightarrow>
   w1 = w\<lparr>trace := trace w @ [CompletionsCreate (messages_for h)]\<rparr>"
  using generateResponse_total [of e h w] by auto

lemma generateResponse_not_Inl: "generateResponse e h w \<noteq> (Inl err, w1)"
  using generateResponse_total [of e h w] by auto

lemma message_create_Inr:
  "message_create e cid s t w = (Inr m, w1) \<longleftrightarrow>
   next_fault w = None \<and>
   m = \<lparr>msg_id = uuidGenerate e (uuid_count w), conversationId = cid, sender = s,
        msg_text = t, createdAt = now w\<rparr> \<and>
   w1 = w\<lparr>faults := tl (faults w), trace := trace w @ [MessageCreate cid s t],
          message_table := message_table w @ [m],
          uuid_count := uuid_count w + 1, now := now w + 1\<rparr>"
  by (auto simp: message_create_def store_call_Inr Let_def)

lemma message_findMany_Inr:
  "message_findMany cid w = (Inr rows, w1) \<longleftrightarrow>
   next_fault w = None \<and>
   rows = sort_key createdAt (filter (\<lambda>m. conversationId m = cid) (message_table w)) \<and>
   w1 = w\<lparr>faults := tl (faults w), trace := trace w @ [MessageFindMany cid]\<rparr>"
  by (auto simp: message_findMany_def store_call_Inr)

lemma generateResponse_text_world:
  "fst (generateResponse e h w) = fst (generateResponse e h w0)"
  by (simp add: generateResponse_def generateResponse_try_def Let_def
      split: provider_outcome.splits option.splits)

lemma saveAndReply_success:
  assumes "saveAndReply e t cid w = (Inr r, w2)"
  shows "\<exists>userRow aiRow hist.
    userRow = \<lparr>msg_id = uuidGenerate e (uuid_count w), conversationId = cid, sender = ''user'',
        msg_text = t, createdAt = now w\<rparr> \<and>
    hist = typedHistory (sort_key createdAt
        (filter (\<lambda>m. conversationId m = cid) (message_table w @ [userRow]))) \<and>
    fst (generateResponse e hist w0) = Inr (reply r) \<and>
    resp_sessionId r = cid \<and>
    conversationId aiRow = cid \<and> sender aiRow = ''ai'' \<and> msg_text aiRow = reply r \<and>
    message_table w2 = message_table w @ [userRow, aiRow] \<and>
    conversation_table w2 = conversation_table w \<and>
    trace w2 = trace w @ [MessageCreate cid ''user'' t, MessageFindMany cid,
      CompletionsCreate (messages_for hist), MessageCreate cid ''ai'' (reply r)]"
proof -
  from assms obtain userRow w3 where
    u: "message_create e cid ''user'' t w = (Inr userRow, w3)" and
    r1: "andThen (message_findMany cid)
      (\<lambda>history. andThen (generateResponse e (typedHistory history))
        (\<lambda>aiReply. andThen (message_create e cid ''ai'' aiReply)
          (\<lambda>aiRow. returns \<lparr>reply = aiReply, resp_sessionId = cid\<rparr>))) w3 = (Inr r, w2)"
    by (auto simp: saveAndReply_def andThen_Inr sender_string_def)
  from r1 obtain rows w4 where
    f: "message_findMany cid w3 = (Inr rows, w4)" and
    r2: "andThen (generateResponse e (typedHistory rows))
        (\<lambda>aiReply. andThen (message_create e cid ''ai'' aiReply)
          (\<lambda>aiRow. returns \<lparr>reply = aiReply, resp_sessionId = cid\<rparr>)) w4 = (Inr r, w2)"
    by (auto simp: andThen_Inr)
  from r2 obtain aiReply w5 where
    g: "generateResponse e (typedHistory rows) w4 = (Inr aiReply, w5)" and
    r3: "andThen (message_create e cid ''ai'' aiReply)
          (\<lambda>aiRow. returns \<lparr>reply = aiReply, resp_sessionId = cid\<rparr>) w5 = (Inr r, w2)"
    by (auto simp: andThen_Inr)
  from r3 obtain aiRow where
    a: "message_create e cid ''ai'' aiReply w5 = (Inr aiRow, w2)" and
    r: "r = \<lparr>reply = aiReply, resp_sessionId = cid\<rparr>"
    by (auto simp: andThen_Inr returns_def)
  have w5: "w5 = w4\<lparr>trace := trace w4 @ [CompletionsCreate (messages_for (typedHistory rows))]\<rparr>"
    using g by (rule generateResponse_Inr)
  have gen: "fst (generateResponse e (typedHistory rows) w0) = Inr (reply r)"
    using g r generateResponse_text_world [of e "typedHistory rows" w0 w4] by simp
  let ?userRow = "\<lparr>msg_id = uuidGenerate e (uuid_count w), conversationId = cid, sender = ''user'',
        msg_text = t, createdAt = now w\<rparr>"
  have ur: "userRow = ?userRow" using u by (simp add: message_create_Inr)
  have rows: "rows = sort_key createdAt
        (filter (\<lambda>m. conversationId m = cid) (message_table w @ [?userRow]))"
    using u f by (simp add: message_create_Inr message_findMany_Inr)
  have ai: "conversationId aiRow = cid \<and> sender aiRow = ''ai'' \<and> msg_text aiRow = reply r"
    using a r by (simp add: message_create_Inr)
  have tab: "message_table w2 = message_table w @ [?userRow, aiRow]"
    using u f w5 a by (simp add: message_create_Inr message_findMany_Inr)
  have conv: "conversation_table w2 = conversation_table w"
    using u f w5 a by (simp add: message_create_Inr message_findMany_Inr)
  have tr: "trace w2 = trace w @ [MessageCreate cid ''user'' t, MessageFindMany cid,
      CompletionsCreate (messages_for (typedHistory rows)), MessageCreate cid ''ai'' (reply r)]"
    using u f w5 a r by (simp add: message_create_Inr message_findMany_Inr)
  show ?thesis
    using gen rows ai tab conv tr r by auto
qed


lemma conversation_create_Inr:
  "conversation_create e w = (Inr c, w1) \<longleftrightarrow>
   next_fault w = None \<and>
   c = \<lparr>conv_id = uuidGenerate e (uuid_count w), conv_createdAt = now w\<rparr> \<and>
   w1 = w\<lparr>faults := tl (faults w), trace := trace w @ [ConversationCreate],
          conversation_table := conversation_table w @ [c],
          uuid_count := uuid_count w + 1, now := now w + 1\<rparr>"
  by (auto simp: conversation_create_def store_call_Inr Let_def)

lemma conversation_findUnique_Inr:
  "conversation_findUnique ident w = (Inr found, w1) \<longleftrightarrow>
   next_fault w = None \<and>
   found = find (\<lambda>c. conv_id c = ident) (conversation_table w) \<and>
   w1 = w\<lparr>faults := tl (faults w), trace := trace w @ [ConversationFindUnique ident]\<rparr>"
  by (auto simp: conversation_findUnique_def store_call_Inr)

lemma newConversationId_Inr:
  "newConversationId e w = (Inr cid, w1) \<longleftrightarrow>
   next_fault w = None \<and> cid = uuidGenerate e (uuid_count w) \<and>
   w1 = w\<lparr>faults := tl (faults w), trace := trace w @ [ConversationCreate],
          conversation_table := conversation_table w @
            [\<lparr>conv_id = uuidGenerate e (uuid_count w), conv_createdAt = now w\<rparr>],
          uuid_count := uuid_count w + 1, now := now w + 1\<rparr>"
  by (auto simp: newConversationId_def andThen_Inr returns_def conversation_create_Inr)

lemma find_conv_Some:
  "find (\<lambda>c. conv_id c = ident) cs = Some c \<Longrightarrow> list_ex (\<lambda>c. conv_id c = ident) cs"
  by (induction cs) (auto split: if_splits)


lemma getOrCreateConversation_success:
  assumes "getOrCreateConversation e input w = (Inr cid, w1)"
  shows "message_table w1 = message_table w \<and> now w \<le> now w1 \<and>
    exists_conversation cid w1 \<and>
    (\<exists>pre. trace w1 = trace w @ pre \<and>
      list_all (\<lambda>ev. ev = ConversationCreate \<or>
                      ev = ConversationFindUnique (str_of (sessionId input))) pre)"
proof (cases "truthy (sessionId input)")
  case False
  with assms have "newConversationId e w = (Inr cid, w1)"
    by (simp add: getOrCreateConversation_def)
  then show ?thesis
    by (auto simp: newConversationId_Inr exists_conversation_def)
next
  case True
  with assms obtain found w0 where
    f: "conversation_findUnique (str_of (sessionId input)) w = (Inr found, w0)" and
    r: "(case found of None \<Rightarrow> newConversationId e
          | Some c \<Rightarrow> returns (str_of (sessionId input))) w0 = (Inr cid, w1)"
    by (auto simp: getOrCreateConversation_def andThen_Inr lift_result_def)
  show ?thesis
  proof (cases found)
    case None
    with r have "newConversationId e w0 = (Inr cid, w1)" by simp
    with f show ?thesis
      by (auto simp: newConversationId_Inr conversation_findUnique_Inr exists_conversation_def)
  next
    case (Some c)
    with r have "cid = str_of (sessionId input)" "w1 = w0" by (auto simp: returns_def)
    with f Some show ?thesis
      using find_conv_Some [of "str_of (sessionId input)" "conversation_table w" c]
      by (auto simp: conversation_findUnique_Inr exists_conversation_def)
  qed
qed

lemma processMessage_Inr:
  assumes "processMessage e input w = (Inr r, w2)"
  shows "is_string (message input) \<and> trim (str_of (message input)) \<noteq> [] \<and>
    length (trim (str_of (message input))) \<le> MAX_MESSAGE_LENGTH \<and>
    (\<exists>w1. getOrCreateConversation e input w = (Inr (resp_sessionId r), w1) \<and>
      saveAndReply e (trim (str_of (message input))) (resp_sessionId r) w1 = (Inr r, w2))"
proof -
  let ?t = "trim (str_of (message input))"
  from assms have v: "is_string (message input) \<and> ?t \<noteq> [] \<and> length ?t \<le> MAX_MESSAGE_LENGTH"
    by (auto simp: processMessage_def Let_def split: if_splits)
  with assms have "processMessage_try e input ?t w = (Inr r, w2)"
    by (auto simp: processMessage_def Let_def split: if_splits prod.splits sum.splits)
  then obtain cid w1 where
    g: "getOrCreateConversation e input w = (Inr cid, w1)" and
    s: "saveAndReply e ?t cid w1 = (Inr r, w2)"
    by (auto simp: processMessage_try_def andThen_Inr)
  from s have "resp_sessionId r = cid"
    using saveAndReply_success [of e ?t cid w1 r w2 w] by auto
  with v g s show ?thesis by auto
qed

lemma insort_key_snoc:
  "f x \<le> f y \<Longrightarrow> insort_key f x (zs @ [y]) = insort_key f x zs @ [y]"
  by (induction zs) auto

lemma sort_key_snoc:
  "\<forall>x \<in> set xs. f x \<le> f y \<Longrightarrow> sort_key f (xs @ [y]) = sort_key f xs @ [y]"
proof (induction xs)
  case Nil
  then show ?case by simp
next
  case (Cons a xs)
  then have "sort_key f (xs @ [y]) = sort_key f xs @ [y]" by simp
  moreover have "f a \<le> f y" using Cons.prems by simp
  ultimately show ?case by (simp add: insort_key_snoc)
qed

lemma slice_from_last10: "slice_from (- int MAX_HISTORY) xs = drop (length xs - 10) xs"
  by (simp add: slice_from_def MAX_HISTORY_def Let_def max_def) (auto simp: nat_diff_distrib)

lemma recentHistory_snoc_last: "last (recentHistory (xs @ [x])) = x"
  by (simp add: recentHistory_def slice_from_last10)

lemma recentHistory_snoc_nonempty: "recentHistory (xs @ [x]) \<noteq> []"
  by (simp add: recentHistory_def slice_from_last10)

lemma messages_for_snoc_last:
  "last (messages_for (h @ [(s, t)])) =
     \<lparr>role = (if s = SUser then RUser else RAssistant), content = t\<rparr>"
  using recentHistory_snoc_last [of h "(s, t)"] recentHistory_snoc_nonempty [of h "(s, t)"]
  by (simp add: messages_for_def last_map)


lemma typedHistory_snoc:
  "typedHistory (rows @ [m]) = typedHistory rows @ [(typed_sender (sender m), msg_text m)]"
  by (simp add: typedHistory_def)

section \<open>Sanitised error messages in production\<close>

lemma validateSessionId_malformed:
  "sid \<noteq> [] \<Longrightarrow> \<not> v sid \<Longrightarrow>
   validateSessionId v (JStr sid) = Inl (Error ''Invalid session ID format'')"
  by (simp add: validateSessionId_def isValidUUID_def)

lemma sanitize_invalid_format:
  "sanitizeErrorMessage (Error ''Invalid session ID format'') True = ''Service configuration error''"
  by (simp add: sanitizeErrorMessage_def lower_invalid_format)

text \<open>
  Claim C10, as stated, fails: in production an error whose lower-cased message contains
  \<open>invalid\<close> and \<open>cannot be empty\<close>, but neither \<open>not found\<close> nor \<open>required\<close>, keeps its own
  message, because the branch that keeps validation messages comes before the branch for
  \<open>invalid\<close>.
\<close>

theorem sanitize_invalid_counterexample:
  "includes_str (toLowerCase ''Invalid text: cannot be empty'') ''invalid'' \<and>
   \<not> includes_str (toLowerCase ''Invalid text: cannot be empty'') ''not found'' \<and>
   \<not> includes_str (toLowerCase ''Invalid text: cannot be empty'') ''required'' \<and>
   sanitizeErrorMessage (Error ''Invalid text: cannot be empty'') True \<noteq>
     ''Service configuration error''"
proof -
  have "toLowerCase ''Invalid text: cannot be empty'' = ''invalid text: cannot be empty''"
    by code_simp
  then show ?thesis by (simp add: sanitizeErrorMessage_def)
qed

text \<open>
  Claim C10, amended: in production \<open>sanitizeErrorMessage\<close> maps every error whose message
  contains, case-insensitively, \<open>invalid\<close> but none of \<open>not found\<close>, \<open>required\<close> and
  \<open>cannot be empty\<close> to \<open>Service configuration error\<close>; so a request with a malformed
  session identity gets that text as its response body in production, with status 400 on the
  message route and 404 on the history route, and the store is not touched.
\<close>

theorem production_invalid_is_configuration_error:
  "(error_message error = Some m \<and>
    includes_str (toLowerCase m) ''invalid'' \<and>
    \<not> includes_str (toLowerCase m) ''not found'' \<and>
    \<not> includes_str (toLowerCase m) ''required'' \<and>
    \<not> includes_str (toLowerCase m) ''cannot be empty''
    \<longrightarrow> sanitizeErrorMessage error True = ''Service configuration error'') \<and>
   (sid \<noteq> [] \<and> \<not> uuidValidate e sid
    \<longrightarrow> post_message True e \<lparr>message = msg, sessionId = JStr sid\<rparr> w =
          (\<lparr>status = 400, body = ErrorBody ''Service configuration error''\<rparr>, w) \<and>
        get_history True e sid w =
          (\<lparr>status = 404, body = ErrorBody ''Service configuration error''\<rparr>, w))"
proof (intro conjI impI)
  assume a: "error_message error = Some m \<and>
    includes_str (toLowerCase m) ''invalid'' \<and>
    \<not> includes_str (toLowerCase m) ''not found'' \<and>
    \<not> includes_str (toLowerCase m) ''required'' \<and>
    \<not> includes_str (toLowerCase m) ''cannot be empty''"
  then have "\<not> includes_str (toLowerCase m) ''conversation not found''"
    using not_found_longer by blast
  with a show "sanitizeErrorMessage error True = ''Service configuration error''"
    by (simp add: sanitizeErrorMessage_def)
next
  assume b: "sid \<noteq> [] \<and> \<not> uuidValidate e sid"
  then have v: "validateSessionId (uuidValidate e) (JStr sid) =
      Inl (Error ''Invalid session ID format'')"
    by (simp add: validateSessionId_malformed)
  show "post_message True e \<lparr>message = msg, sessionId = JStr sid\<rparr> w =
          (\<lparr>status = 400, body = ErrorBody ''Service configuration error''\<rparr>, w)"
    using b v sanitize_invalid_format
    by (simp add: post_message_def andThen_def lift_result_def message_status_def
        lower_invalid_format)
  show "get_history True e sid w =
          (\<lparr>status = 404, body = ErrorBody ''Service configuration error''\<rparr>, w)"
    using b v sanitize_invalid_format
    by (simp add: get_history_def andThen_def lift_result_def history_status_def)
qed

theorem production_invalid_is_configuration_error_witness:
  "sanitizeErrorMessage (Error ''Invalid session ID format'') True = ''Service configuration error'' \<and>
   post_message True (sample_env (completion_with ''Hello''))
       \<lparr>message = JStr ''hi'', sessionId = JStr ''not-a-uuid''\<rparr> empty_world =
     (\<lparr>status = 400, body = ErrorBody ''Service configuration error''\<rparr>, empty_world) \<and>
   get_history True (sample_env (completion_with ''Hello'')) ''not-a-uuid'' empty_world =
     (\<lparr>status = 404, body = ErrorBody ''Service configuration error''\<rparr>, empty_world)"
proof -
  have h1: "error_message (Error ''Invalid session ID format'') = Some ''Invalid session ID format'' \<and>
    includes_str (toLowerCase ''Invalid session ID format'') ''invalid'' \<and>
    \<not> includes_str (toLowerCase ''Invalid session ID format'') ''not found'' \<and>
    \<not> includes_str (toLowerCase ''Invalid session ID format'') ''required'' \<and>
    \<not> includes_str (toLowerCase ''Invalid session ID format'') ''cannot be empty''"
    by (simp add: lower_invalid_format)
  have h2: "''not-a-uuid'' \<noteq> [] \<and>
    \<not> uuidValidate (sample_env (completion_with ''Hello'')) ''not-a-uuid''"
    by (simp add: sample_env_def not_a_uuid)
  show ?thesis
    using h1 h2
      production_invalid_is_configuration_error
        [of "Error ''Invalid session ID format''" "''Invalid session ID format''" "''not-a-uuid''"
            "sample_env (completion_with ''Hello'')" "JStr ''hi''" empty_world]
    by blast
qed

section \<open>Sample runs\<close>

lemma sample_run_reply:
  "processMessage (sample_env (completion_with ''Hi there!'')) sample_input empty_world =
     (Inr \<lparr>reply = ''Hi there!'', resp_sessionId = sample_conversation\<rparr>,
      world_after ''Hi there!'')"
  by code_simp

lemma sample_run_rejected:
  "processMessage (sample_env (Rejects (APIError 401 ''Incorrect API key provided'')))
       sample_input empty_world =
     (Inr \<lparr>reply = ''Our support agent is temporarily unavailable. Please try again shortly.'',
           resp_sessionId = sample_conversation\<rparr>,
      world_after ''Our support agent is temporarily unavailable. Please try again shortly.'')"
  by code_simp

lemma sample_run_blank:
  "processMessage (sample_env (completion_with ''  '')) sample_input empty_world =
     (Inr \<lparr>reply = [], resp_sessionId = sample_conversation\<rparr>, world_after [])"
  by code_simp

lemma clock_ok_empty_world: "clock_ok empty_world"
  by (simp add: clock_ok_def empty_world_def)

lemma sample_run_followup:
  "processMessage (sample_env (completion_with ''Hi there!'')) sample_followup sample_store =
     (Inr \<lparr>reply = ''Hi there!'', resp_sessionId = sample_conversation\<rparr>, sample_store_after)"
  by code_simp

lemma clock_ok_sample_store: "clock_ok sample_store"
  by code_simp

lemma sample_store_rows:
  "sort_key createdAt
     (filter (\<lambda>m. conversationId m = sample_conversation) (message_table sample_store)) =
   sample_rows"
  by code_simp

lemma sample_store_rows_followup:
  "sort_key createdAt
     (filter (\<lambda>m. conversationId m = sample_conversation)
        (message_table sample_store @ [followup_row])) =
   sample_rows @ [followup_row]"
  by code_simp

lemma trim_followup: "trim (str_of (message sample_followup)) = ''thanks''"
  by code_simp

lemma sample_store_after_rows:
  "message_table sample_store_after = message_table sample_store @ [u, a] \<Longrightarrow> u = followup_row"
  by (simp add: sample_store_after_def sample_store_def)

lemma followup_turns:
  "map msg_text (drop 3 (sample_rows @ [followup_row])) =
     [''m3'', ''m4'', ''m5'', ''m6'', ''m7'', ''m8'', ''m9'', ''m10'', ''m11'', ''thanks'']"
  "map sender (drop 3 (sample_rows @ [followup_row])) =
     [''ai'', ''user'', ''ai'', ''user'', ''ai'', ''user'', ''ai'', ''user'', ''ai'', ''user'']"
  "length (sample_rows @ [followup_row]) = 13"
  by code_simp+

section \<open>The user message is stored before the provider is called\<close>

text \<open>
  Claim C2: in every successful \<open>processMessage\<close> call, the calls made after the conversation
  has been resolved are, in this order, the insert of the trimmed message as a \<open>user\<close> row,
  the load of the conversation's rows, the call to the provider and the insert of the reply;
  no provider call comes earlier. The history handed to the provider is built from the rows
  the store held for the conversation before the call, in order of creation, followed by the
  row just inserted; so its last turn is the trimmed message with role user. The store's
  clock is assumed not to lie behind the creation times already stored.
\<close>

theorem user_message_precedes_completion:
  assumes "processMessage e input w = (Inr r, w2)" and "clock_ok w"
  shows "\<exists>pre userRow aiRow rows.
     rows = sort_key createdAt
       (filter (\<lambda>m. conversationId m = resp_sessionId r) (message_table w)) \<and>
     message_table w2 = message_table w @ [userRow, aiRow] \<and>
     conversationId userRow = resp_sessionId r \<and> sender userRow = ''user'' \<and>
     msg_text userRow = trim (str_of (message input)) \<and>
     trace w2 = trace w @ pre @
       [MessageCreate (resp_sessionId r) ''user'' (trim (str_of (message input))),
        MessageFindMany (resp_sessionId r),
        CompletionsCreate (messages_for (typedHistory (rows @ [userRow]))),
        MessageCreate (resp_sessionId r) ''ai'' (reply r)] \<and>
     list_all (\<lambda>ev. ev = ConversationCreate \<or>
                     ev = ConversationFindUnique (str_of (sessionId input))) pre \<and>
     last (messages_for (typedHistory (rows @ [userRow]))) =
       \<lparr>role = RUser, content = trim (str_of (message input))\<rparr>"
proof -
  let ?t = "trim (str_of (message input))"
  let ?cid = "resp_sessionId r"
  from assms(1) obtain w1 where
    g: "getOrCreateConversation e input w = (Inr ?cid, w1)" and
    s: "saveAndReply e ?t ?cid w1 = (Inr r, w2)"
    using processMessage_Inr by blast
  from g obtain pre where
    tab: "message_table w1 = message_table w" and clk: "now w \<le> now w1" and
    pre: "trace w1 = trace w @ pre"
      "list_all (\<lambda>ev. ev = ConversationCreate \<or>
                     ev = ConversationFindUnique (str_of (sessionId input))) pre"
    using getOrCreateConversation_success by blast
  let ?userRow = "\<lparr>msg_id = uuidGenerate e (uuid_count w1), conversationId = ?cid,
      sender = ''user'', msg_text = ?t, createdAt = now w1\<rparr>"
  let ?rows = "sort_key createdAt (filter (\<lambda>m. conversationId m = ?cid) (message_table w))"
  let ?loaded = "sort_key createdAt
      (filter (\<lambda>m. conversationId m = ?cid) (message_table w1 @ [?userRow]))"
  from saveAndReply_success [OF s, of w] obtain aiRow where
    tab2: "message_table w2 = message_table w1 @ [?userRow, aiRow]" and
    tr: "trace w2 = trace w1 @ [MessageCreate ?cid ''user'' ?t, MessageFindMany ?cid,
      CompletionsCreate (messages_for (typedHistory ?loaded)), MessageCreate ?cid ''ai'' (reply r)]"
    by auto
  have "\<forall>m \<in> set (filter (\<lambda>m. conversationId m = ?cid) (message_table w)).
      createdAt m \<le> createdAt ?userRow"
    using assms(2) clk by (auto simp: clock_ok_def list_all_iff)
  then have "sort_key createdAt
      (filter (\<lambda>m. conversationId m = ?cid) (message_table w) @ [?userRow]) = ?rows @ [?userRow]"
    by (rule sort_key_snoc)
  then have loaded: "?loaded = ?rows @ [?userRow]" using tab by simp
  have l: "last (messages_for (typedHistory (?rows @ [?userRow]))) =
      \<lparr>role = RUser, content = ?t\<rparr>"
    by (simp add: typedHistory_snoc typed_sender_def messages_for_snoc_last)
  have t2: "trace w2 = trace w @ pre @ [MessageCreate ?cid ''user'' ?t, MessageFindMany ?cid,
      CompletionsCreate (messages_for (typedHistory (?rows @ [?userRow]))),
      MessageCreate ?cid ''ai'' (reply r)]"
    using tr pre(1) loaded by simp
  have m2: "message_table w2 = message_table w @ [?userRow, aiRow]"
    using tab tab2 by simp
  show ?thesis
    using m2 t2 pre(2) l
    by (intro exI [of _ pre] exI [of _ ?userRow] exI [of _ aiRow] exI [of _ ?rows]) simp
qed

theorem user_message_precedes_completion_witness:
  "processMessage (sample_env (completion_with ''Hi there!'')) sample_followup sample_store =
     (Inr \<lparr>reply = ''Hi there!'', resp_sessionId = sample_conversation\<rparr>, sample_store_after) \<and>
   clock_ok sample_store \<and>
   (\<exists>pre.
     message_table sample_store_after =
       message_table sample_store @ [followup_row, last (message_table sample_store_after)] \<and>
     msg_text followup_row = ''thanks'' \<and> sender followup_row = ''user'' \<and>
     trace sample_store_after = trace sample_store @ pre @
       [MessageCreate sample_conversation ''user'' ''thanks'',
        MessageFindMany sample_conversation,
        CompletionsCreate (messages_for (typedHistory (sample_rows @ [followup_row]))),
        MessageCreate sample_conversation ''ai'' ''Hi there!''] \<and>
     last (messages_for (typedHistory (sample_rows @ [followup_row]))) =
       \<lparr>role = RUser, content = ''thanks''\<rparr>)"
proof -
  from user_message_precedes_completion [OF sample_run_followup clock_ok_sample_store]
  obtain pre userRow aiRow where
    m: "message_table sample_store_after = message_table sample_store @ [userRow, aiRow]" and
    u: "sender userRow = ''user''" "msg_text userRow = ''thanks''" and
    t: "trace sample_store_after = trace sample_store @ pre @
       [MessageCreate sample_conversation ''user'' ''thanks'',
        MessageFindMany sample_conversation,
        CompletionsCreate (messages_for (typedHistory (sample_rows @ [userRow]))),
        MessageCreate sample_conversation ''ai'' ''Hi there!'']" and
    l: "last (messages_for (typedHistory (sample_rows @ [userRow]))) =
       \<lparr>role = RUser, content = ''thanks''\<rparr>"
    unfolding trim_followup by (auto simp: sample_store_rows)
  have f: "userRow = followup_row" using m by (rule sample_store_after_rows)
  have a: "aiRow = last (message_table sample_store_after)" using m by simp
  show ?thesis
    using sample_run_followup clock_ok_sample_store m u t l unfolding f a by blast
qed

section \<open>The turns handed to the provider\<close>

lemma typed_sender_role:
  "(if typed_sender s = SUser then RUser else RAssistant) = (if s = ''user'' then RUser else RAssistant)"
  by (simp add: typed_sender_def)

lemma messages_for_typedHistory:
  "messages_for (typedHistory rows) =
     \<lparr>role = RSystem, content = SYSTEM_PROMPT\<rparr> #
     map (\<lambda>m. \<lparr>role = (if sender m = ''user'' then RUser else RAssistant), content = msg_text m\<rparr>)
       (drop (length rows - 10) rows)"
  by (simp add: messages_for_def recentHistory_def slice_from_last10 typedHistory_def
      drop_map typed_sender_role)

text \<open>
  Claim C5: in every successful \<open>processMessage\<close> call, whatever the store held before, the
  turns handed to the provider are the fixed system turn followed by the last ten of the
  conversation's stored rows (the row just inserted included) in order of creation time, a
  row whose sender is \<open>user\<close> with role user and every other row with role assistant;
  there are at most eleven turns and the first one is the system turn.
\<close>

theorem provider_receives_system_and_last_ten:
  assumes "processMessage e input w = (Inr r, w2)"
  shows "\<exists>pre userRow aiRow rows turns.
     message_table w2 = message_table w @ [userRow, aiRow] \<and>
     rows = sort_key createdAt
       (filter (\<lambda>m. conversationId m = resp_sessionId r) (message_table w @ [userRow])) \<and>
     sorted (map createdAt rows) \<and>
     turns = \<lparr>role = RSystem, content = SYSTEM_PROMPT\<rparr> #
       map (\<lambda>m. \<lparr>role = (if sender m = ''user'' then RUser else RAssistant),
                  content = msg_text m\<rparr>)
         (drop (length rows - 10) rows) \<and>
     length turns \<le> 11 \<and> role (hd turns) = RSystem \<and>
     trace w2 = trace w @ pre @
       [MessageCreate (resp_sessionId r) ''user'' (trim (str_of (message input))),
        MessageFindMany (resp_sessionId r),
        CompletionsCreate turns,
        MessageCreate (resp_sessionId r) ''ai'' (reply r)] \<and>
     list_all (\<lambda>ev. ev = ConversationCreate \<or>
                     ev = ConversationFindUnique (str_of (sessionId input))) pre"
proof -
  let ?t = "trim (str_of (message input))"
  let ?cid = "resp_sessionId r"
  from assms obtain w1 where
    g: "getOrCreateConversation e input w = (Inr ?cid, w1)" and
    s: "saveAndReply e ?t ?cid w1 = (Inr r, w2)"
    using processMessage_Inr by blast
  from g obtain pre where
    tab: "message_table w1 = message_table w" and
    pre: "trace w1 = trace w @ pre"
      "list_all (\<lambda>ev. ev = ConversationCreate \<or>
                     ev = ConversationFindUnique (str_of (sessionId input))) pre"
    using getOrCreateConversation_success by blast
  let ?userRow = "\<lparr>msg_id = uuidGenerate e (uuid_count w1), conversationId = ?cid,
      sender = ''user'', msg_text = ?t, createdAt = now w1\<rparr>"
  let ?rows = "sort_key createdAt
      (filter (\<lambda>m. conversationId m = ?cid) (message_table w @ [?userRow]))"
  let ?turns = "\<lparr>role = RSystem, content = SYSTEM_PROMPT\<rparr> #
       map (\<lambda>m. \<lparr>role = (if sender m = ''user'' then RUser else RAssistant),
                  content = msg_text m\<rparr>)
         (drop (length ?rows - 10) ?rows)"
  from saveAndReply_success [OF s, of w] obtain aiRow where
    tab2: "message_table w2 = message_table w1 @ [?userRow, aiRow]" and
    tr: "trace w2 = trace w1 @ [MessageCreate ?cid ''user'' ?t, MessageFindMany ?cid,
      CompletionsCreate (messages_for (typedHistory (sort_key createdAt
        (filter (\<lambda>m. conversationId m = ?cid) (message_table w1 @ [?userRow]))))),
      MessageCreate ?cid ''ai'' (reply r)]"
    by auto
  have mt: "messages_for (typedHistory ?rows) = ?turns"
    by (rule messages_for_typedHistory)
  have t2: "trace w2 = trace w @ pre @ [MessageCreate ?cid ''user'' ?t, MessageFindMany ?cid,
      CompletionsCreate ?turns, MessageCreate ?cid ''ai'' (reply r)]"
    using tr pre(1) tab mt by simp
  have m2: "message_table w2 = message_table w @ [?userRow, aiRow]"
    using tab tab2 by simp
  have srt: "sorted (map createdAt ?rows)" by simp
  have len: "length ?turns \<le> 11" by simp
  have hd: "role (hd ?turns) = RSystem" by simp
  show ?thesis
    using m2 srt len hd t2 pre(2)
    by (intro exI [of _ pre] exI [of _ ?userRow] exI [of _ aiRow] exI [of _ ?rows]
        exI [of _ ?turns]) simp
qed

theorem provider_receives_system_and_last_ten_witness:
  "processMessage (sample_env (completion_with ''Hi there!'')) sample_followup sample_store =
     (Inr \<lparr>reply = ''Hi there!'', resp_sessionId = sample_conversation\<rparr>, sample_store_after) \<and>
   (\<exists>turns.
     last (butlast (trace sample_store_after)) = CompletionsCreate turns \<and>
     length turns = 11 \<and>
     map content turns =
       [SYSTEM_PROMPT, ''m3'', ''m4'', ''m5'', ''m6'', ''m7'', ''m8'', ''m9'', ''m10'', ''m11'',
        ''thanks''] \<and>
     map role turns =
       [RSystem, RAssistant, RUser, RAssistant, RUser, RAssistant, RUser, RAssistant, RUser,
        RAssistant, RUser])"
proof -
  from provider_receives_system_and_last_ten [OF sample_run_followup]
  obtain pre userRow aiRow rows turns where
    m: "message_table sample_store_after = message_table sample_store @ [userRow, aiRow]" and
    r: "rows = sort_key createdAt
       (filter (\<lambda>m. conversationId m = sample_conversation)
          (message_table sample_store @ [userRow]))" and
    t: "turns = \<lparr>role = RSystem, content = SYSTEM_PROMPT\<rparr> #
       map (\<lambda>m. \<lparr>role = (if sender m = ''user'' then RUser else RAssistant),
                  content = msg_text m\<rparr>)
         (drop (length rows - 10) rows)" and
    tr: "trace sample_store_after = trace sample_store @ pre @
       [MessageCreate sample_conversation ''user''
          (trim (str_of (message sample_followup))),
        MessageFindMany sample_conversation,
        CompletionsCreate turns,
        MessageCreate sample_conversation ''ai'' ''Hi there!'']"
    by auto
  have u: "userRow = followup_row" using m by (rule sample_store_after_rows)
  have rows: "rows = sample_rows @ [followup_row]"
    using r unfolding u by (simp only: sample_store_rows_followup)
  have d: "drop (length rows - 10) rows = drop 3 (sample_rows @ [followup_row])"
    unfolding rows by (simp add: followup_turns(3) del: length_append drop_append)
  have c: "last (butlast (trace sample_store_after)) = CompletionsCreate turns"
    unfolding tr by (simp add: butlast_append)
  have mc: "map content turns = SYSTEM_PROMPT # map msg_text (drop 3 (sample_rows @ [followup_row]))"
    unfolding t d by (simp add: comp_def)
  have mr: "map role turns = RSystem #
      map (\<lambda>s. if s = ''user'' then RUser else RAssistant)
        (map sender (drop 3 (sample_rows @ [followup_row])))"
    unfolding t d by (simp add: comp_def)
  have mc2: "map content turns =
      [SYSTEM_PROMPT, ''m3'', ''m4'', ''m5'', ''m6'', ''m7'', ''m8'', ''m9'', ''m10'', ''m11'',
       ''thanks'']"
    using mc by (simp only: followup_turns(1))
  have n: "length turns = 11"
    using arg_cong [OF mc2, of length] by simp
  have mr2: "map role turns =
      [RSystem, RAssistant, RUser, RAssistant, RUser, RAssistant, RUser, RAssistant, RUser,
       RAssistant, RUser]"
    unfolding mr followup_turns(2) by simp
  show ?thesis
    by (intro conjI exI [of _ turns] sample_run_followup c n mc2 mr2)
qed

section \<open>The reply is stored\<close>

text \<open>
  Claim C9: in every successful \<open>processMessage\<close> call the reply is the text that
  \<open>generateResponse\<close> returned, whatever it is, and the call appends exactly two rows to the
  message table, the second one an \<open>ai\<close> row of the returned conversation carrying the reply;
  inserting it is the last call made, and a later load of the conversation returns it.
\<close>

theorem reply_is_persisted_as_ai_message:
  assumes "processMessage e input w = (Inr r, w2)"
  shows "\<exists>userRow aiRow hist.
     fst (generateResponse e hist w) = Inr (reply r) \<and>
     message_table w2 = message_table w @ [userRow, aiRow] \<and>
     conversationId userRow = resp_sessionId r \<and>
     conversationId aiRow = resp_sessionId r \<and>
     sender aiRow = ''ai'' \<and> msg_text aiRow = reply r \<and>
     last (trace w2) = MessageCreate (resp_sessionId r) ''ai'' (reply r) \<and>
     aiRow \<in> set (sort_key createdAt
       (filter (\<lambda>m. conversationId m = resp_sessionId r) (message_table w2)))"
proof -
  let ?t = "trim (str_of (message input))"
  let ?cid = "resp_sessionId r"
  from assms obtain w1 where
    g: "getOrCreateConversation e input w = (Inr ?cid, w1)" and
    s: "saveAndReply e ?t ?cid w1 = (Inr r, w2)"
    using processMessage_Inr by blast
  from g have tab: "message_table w1 = message_table w"
    using getOrCreateConversation_success by blast
  from saveAndReply_success [OF s, of w] obtain userRow aiRow hist where
    u: "userRow = \<lparr>msg_id = uuidGenerate e (uuid_count w1), conversationId = ?cid,
          sender = ''user'', msg_text = ?t, createdAt = now w1\<rparr>" and
    gen: "fst (generateResponse e hist w) = Inr (reply r)" and
    ai: "conversationId aiRow = ?cid" "sender aiRow = ''ai''" "msg_text aiRow = reply r" and
    tab2: "message_table w2 = message_table w1 @ [userRow, aiRow]" and
    tr: "trace w2 = trace w1 @ [MessageCreate ?cid ''user'' ?t, MessageFindMany ?cid,
      CompletionsCreate (messages_for hist), MessageCreate ?cid ''ai'' (reply r)]"
    by blast
  have "aiRow \<in> set (sort_key createdAt
       (filter (\<lambda>m. conversationId m = ?cid) (message_table w2)))"
    using tab2 ai(1) by simp
  moreover have "last (trace w2) = MessageCreate ?cid ''ai'' (reply r)"
    using tr by simp
  moreover have "conversationId userRow = ?cid" using u by simp
  moreover have "message_table w2 = message_table w @ [userRow, aiRow]"
    using tab tab2 by simp
  ultimately show ?thesis using gen ai by blast
qed

theorem reply_is_persisted_as_ai_message_witness:
  "processMessage (sample_env (Rejects (APIError 401 ''Incorrect API key provided'')))
       sample_input empty_world =
     (Inr \<lparr>reply = ''Our support agent is temporarily unavailable. Please try again shortly.'',
           resp_sessionId = sample_conversation\<rparr>,
      world_after ''Our support agent is temporarily unavailable. Please try again shortly.'') \<and>
   (\<exists>userRow aiRow.
     message_table (world_after
         ''Our support agent is temporarily unavailable. Please try again shortly.'') =
       message_table empty_world @ [userRow, aiRow] \<and>
     conversationId aiRow = sample_conversation \<and>
     sender aiRow = ''ai'' \<and>
     msg_text aiRow = ''Our support agent is temporarily unavailable. Please try again shortly.'')"
  using sample_run_rejected reply_is_persisted_as_ai_message [OF sample_run_rejected]
  by auto

section \<open>What the completion step returns\<close>

lemma generateResponse_never_throws: "\<exists>txt w1. generateResponse e h w = (Inr txt, w1)"
  using generateResponse_total [of e h w] by blast

lemma generateResponse_rejected:
  "provider e (messages_for h) = Rejects err \<Longrightarrow>
   fst (generateResponse e h w) =
     Inr ''Our support agent is temporarily unavailable. Please try again shortly.''"
  by (simp add: generateResponse_def generateResponse_try_def Let_def)

lemma generateResponse_no_content:
  "provider e (messages_for h) = Resolves (Some response) \<Longrightarrow>
   first_choice response = None \<or>
   (\<exists>c. first_choice response = Some c \<and> (choice_content c = None \<or> choice_content c = Some [])) \<Longrightarrow>
   fst (generateResponse e h w) =
     Inr ''Sorry, I was unable to generate a response. Please try again.''"
  by (auto simp: generateResponse_def generateResponse_try_def Let_def)

lemma generateResponse_content:
  "provider e (messages_for h) = Resolves (Some response) \<Longrightarrow>
   first_choice response = Some c \<Longrightarrow> choice_content c = Some txt \<Longrightarrow> txt \<noteq> [] \<Longrightarrow>
   fst (generateResponse e h w) = Inr (trim txt)"
  by (simp add: generateResponse_def generateResponse_try_def Let_def)

text \<open>
  Claim C1 at a provider that answers with blanks only: the content is a non-empty string, so
  the check for an empty answer lets it pass, and trimming afterwards leaves the empty text.
  \<open>generateResponse\<close> returns it, and \<open>processMessage\<close> returns it as the reply.
\<close>

theorem blank_completion_gives_empty_reply:
  "fst (generateResponse (sample_env (completion_with ''  '')) [(SUser, ''hello'')] empty_world) =
     Inr [] \<and>
   fst (processMessage (sample_env (completion_with ''  '')) sample_input empty_world) =
     Inr \<lparr>reply = [], resp_sessionId = sample_conversation\<rparr>"
proof -
  have "fst (generateResponse (sample_env (completion_with ''  '')) [(SUser, ''hello'')]
      empty_world) = Inr []"
    by code_simp
  then show ?thesis by (simp add: sample_run_blank)
qed

theorem blank_completion_gives_empty_reply_witness:
  "\<exists>r. fst (processMessage (sample_env (completion_with ''  '')) sample_input empty_world) = Inr r \<and>
       reply r = [] \<and> length (reply r) = 0"
  using blank_completion_gives_empty_reply by simp

section \<open>Validation of the message\<close>

lemma decimal_max_length: "decimal 5000 = ''5000''"
  by (simp add: decimal.simps digit_char_def)

lemma trim_Nil: "trim [] = []"
  by (simp add: trim_def)

lemma not_space_a: "\<not> is_space (CHR ''a'')"
  by code_simp

lemma trim_blanks: "trim ''   '' = []"
  by code_simp

lemma trim_replicate_a: "trim (replicate n (CHR ''a'')) = replicate n (CHR ''a'')"
  by (simp add: trim_def not_space_a)

text \<open>
  Claim C6: a message that is missing, not a string or the empty string is refused with
  \<open>Message is required and must be a string\<close>, a non-empty message that is empty after
  trimming (blanks, tabs, line ends, no-break spaces) with \<open>Message cannot be empty\<close>, and a message longer than 5000 characters after
  trimming with the length error. In each case the store comes back unchanged and its trace
  has not grown: neither the store nor the provider has been called.
\<close>

theorem invalid_message_rejected_before_io:
  "(\<not> is_string v \<or> v = JStr [] \<longrightarrow>
      processMessage e \<lparr>message = v, sessionId = sid\<rparr> w =
        (Inl (Error ''Message is required and must be a string''), w)) \<and>
   (s \<noteq> [] \<and> trim s = [] \<longrightarrow>
      processMessage e \<lparr>message = JStr s, sessionId = sid\<rparr> w =
        (Inl (Error ''Message cannot be empty''), w)) \<and>
   (5000 < length (trim s) \<longrightarrow>
      processMessage e \<lparr>message = JStr s, sessionId = sid\<rparr> w =
        (Inl (Error ''Message exceeds maximum length of 5000 characters''), w))"
proof (intro conjI impI)
  assume "\<not> is_string v \<or> v = JStr []"
  then have "\<not> truthy v \<or> \<not> is_string v" by (cases v) auto
  then show "processMessage e \<lparr>message = v, sessionId = sid\<rparr> w =
        (Inl (Error ''Message is required and must be a string''), w)"
    by (auto simp: processMessage_def)
next
  assume "s \<noteq> [] \<and> trim s = []"
  then show "processMessage e \<lparr>message = JStr s, sessionId = sid\<rparr> w =
        (Inl (Error ''Message cannot be empty''), w)"
    by (simp add: processMessage_def)
next
  assume a: "5000 < length (trim s)"
  then have "s \<noteq> []" using trim_Nil by auto
  with a show "processMessage e \<lparr>message = JStr s, sessionId = sid\<rparr> w =
        (Inl (Error ''Message exceeds maximum length of 5000 characters''), w)"
    by (auto simp: processMessage_def Let_def decimal_max_length MAX_MESSAGE_LENGTH_def)
qed

theorem invalid_message_rejected_before_io_witness:
  "processMessage (sample_env (completion_with ''Hi there!''))
       \<lparr>message = JUndefined, sessionId = JUndefined\<rparr> empty_world =
     (Inl (Error ''Message is required and must be a string''), empty_world) \<and>
   processMessage (sample_env (completion_with ''Hi there!''))
       \<lparr>message = JNum 42, sessionId = JStr sample_conversation\<rparr> (world_after ''Hi there!'') =
     (Inl (Error ''Message is required and must be a string''), world_after ''Hi there!'') \<and>
   processMessage (sample_env (completion_with ''Hi there!''))
       \<lparr>message = JStr [], sessionId = JUndefined\<rparr> empty_world =
     (Inl (Error ''Message is required and must be a string''), empty_world) \<and>
   processMessage (sample_env (completion_with ''Hi there!''))
       \<lparr>message = JStr ''   '', sessionId = JUndefined\<rparr> empty_world =
     (Inl (Error ''Message cannot be empty''), empty_world) \<and>
   processMessage (sample_env (completion_with ''Hi there!''))
       \<lparr>message = JStr [CHR 0xA0, CHR 0x09], sessionId = JUndefined\<rparr> empty_world =
     (Inl (Error ''Message cannot be empty''), empty_world) \<and>
   processMessage (sample_env (completion_with ''Hi there!''))
       \<lparr>message = JStr (replicate 5001 (CHR ''a'')), sessionId = JUndefined\<rparr> empty_world =
     (Inl (Error ''Message exceeds maximum length of 5000 characters''), empty_world)"
proof -
  note t = invalid_message_rejected_before_io
  have h1: "\<not> is_string JUndefined \<or> JUndefined = JStr []" by simp
  have h2: "\<not> is_string (JNum 42) \<or> JNum 42 = JStr []" by simp
  have h3: "\<not> is_string (JStr []) \<or> JStr [] = JStr []" by simp
  have h4: "''   '' \<noteq> [] \<and> trim ''   '' = []" by (simp add: trim_blanks)
  have h5: "5000 < length (trim (replicate 5001 (CHR ''a'')))"
    unfolding trim_replicate_a length_replicate by simp
  have h6: "[CHR 0xA0, CHR 0x09] \<noteq> [] \<and> trim [CHR 0xA0, CHR 0x09] = []"
    by code_simp
  show ?thesis
    by (intro conjI
        t [of JUndefined _ _ _ "[]", THEN conjunct1, THEN mp, OF h1]
        t [of "JNum 42" _ _ _ "[]", THEN conjunct1, THEN mp, OF h2]
        t [of "JStr []" _ _ _ "[]", THEN conjunct1, THEN mp, OF h3]
        t [of JNull _ _ _ "''   ''", THEN conjunct2, THEN conjunct1, THEN mp, OF h4]
        t [of JNull _ _ _ "[CHR 0xA0, CHR 0x09]", THEN conjunct2, THEN conjunct1, THEN mp, OF h6]
        t [of JNull _ _ _ "replicate 5001 (CHR ''a'')", THEN conjunct2, THEN conjunct2,
           THEN mp, OF h5])
qed

section \<open>Admission control\<close>

text \<open>
  Claim C8: the per-session limiter has a window of 15 minutes and a cap of 20; its key is
  the session identity of the request body when there is one and the request's address when
  there is none, and it is skipped exactly for GET requests. The general limiter has a window
  of 15 minutes and a cap of 100, is never skipped and is the first limiter evaluated for
  every request; under \<open>/chat\<close> it is followed by the daily, the per-address and, except for
  GET requests, the per-session limiter.
\<close>

theorem admission_layers:
  "windowMs sessionLimiter = 900000 \<and> max_requests sessionLimiter = 20 \<and>
   (truthy (body_sessionId req) \<longrightarrow> keyGenerator sessionLimiter req = body_sessionId req) \<and>
   (\<not> truthy (body_sessionId req) \<and> ip req = Some a \<and> a \<noteq> [] \<longrightarrow>
      keyGenerator sessionLimiter req = JStr a) \<and>
   skip sessionLimiter req = (http_method req = ''GET'') \<and>
   windowMs apiLimiter = 900000 \<and> max_requests apiLimiter = 100 \<and>
   \<not> skip apiLimiter req \<and>
   hd (evaluated_limiters req) = apiLimiter \<and>
   (under_chat (path req) \<and> http_method req \<noteq> ''GET'' \<longrightarrow>
      evaluated_limiters req = [apiLimiter, dailyLimiter, chatLimiter, sessionLimiter]) \<and>
   (under_chat (path req) \<and> http_method req = ''GET'' \<longrightarrow>
      evaluated_limiters req = [apiLimiter, dailyLimiter, chatLimiter]) \<and>
   (\<not> under_chat (path req) \<longrightarrow> evaluated_limiters req = [apiLimiter])"
  by (simp add: evaluated_limiters_def limiter_chain_def router_limiters_def apiLimiter_def
      dailyLimiter_def chatLimiter_def sessionLimiter_def session_key_def session_skip_def
      never_skip_def default_key_def)

theorem admission_layers_witness:
  "keyGenerator sessionLimiter
     \<lparr>http_method = ''POST'', path = ''/chat/message'',
      body_sessionId = JStr sample_conversation, ip = Some ''203.0.113.7''\<rparr> =
     JStr sample_conversation \<and>
   keyGenerator sessionLimiter
     \<lparr>http_method = ''POST'', path = ''/chat/message'',
      body_sessionId = JUndefined, ip = Some ''203.0.113.7''\<rparr> = JStr ''203.0.113.7'' \<and>
   evaluated_limiters
     \<lparr>http_method = ''POST'', path = ''/chat/message'',
      body_sessionId = JUndefined, ip = Some ''203.0.113.7''\<rparr> =
     [apiLimiter, dailyLimiter, chatLimiter, sessionLimiter] \<and>
   evaluated_limiters
     \<lparr>http_method = ''GET'', path = ''/chat/history/'' @ sample_conversation,
      body_sessionId = JUndefined, ip = Some ''203.0.113.7''\<rparr> =
     [apiLimiter, dailyLimiter, chatLimiter] \<and>
   evaluated_limiters
     \<lparr>http_method = ''GET'', path = ''/health'',
      body_sessionId = JUndefined, ip = Some ''203.0.113.7''\<rparr> = [apiLimiter]"
proof -
  let ?post1 = "\<lparr>http_method = ''POST'', path = ''/chat/message'',
      body_sessionId = JStr sample_conversation, ip = Some ''203.0.113.7''\<rparr>"
  let ?post2 = "\<lparr>http_method = ''POST'', path = ''/chat/message'',
      body_sessionId = JUndefined, ip = Some ''203.0.113.7''\<rparr>"
  let ?get = "\<lparr>http_method = ''GET'', path = ''/chat/history/'' @ sample_conversation,
      body_sessionId = JUndefined, ip = Some ''203.0.113.7''\<rparr>"
  let ?health = "\<lparr>http_method = ''GET'', path = ''/health'',
      body_sessionId = JUndefined, ip = Some ''203.0.113.7''\<rparr>"
  have h1: "truthy (body_sessionId ?post1)" by (simp add: sample_conversation_def)
  have h2: "\<not> truthy (body_sessionId ?post2) \<and> ip ?post2 = Some ''203.0.113.7'' \<and>
      ''203.0.113.7'' \<noteq> []" by simp
  have h3: "under_chat (path ?post2) \<and> http_method ?post2 \<noteq> ''GET''"
    by code_simp
  have h4: "under_chat (path ?get) \<and> http_method ?get = ''GET''"
    by code_simp
  have h5: "\<not> under_chat (path ?health)" by code_simp
  have c1: "keyGenerator sessionLimiter ?post1 = JStr sample_conversation"
    using h1 admission_layers [of ?post1 "''203.0.113.7''"] by simp
  have c2: "keyGenerator sessionLimiter ?post2 = JStr ''203.0.113.7''"
    using h2 admission_layers [of ?post2 "''203.0.113.7''"] by simp
  have c3: "evaluated_limiters ?post2 = [apiLimiter, dailyLimiter, chatLimiter, sessionLimiter]"
    using h3 admission_layers [of ?post2 "''203.0.113.7''"] by simp
  have c4: "evaluated_limiters ?get = [apiLimiter, dailyLimiter, chatLimiter]"
    using h4 admission_layers [of ?get "''203.0.113.7''"] by simp
  have c5: "evaluated_limiters ?health = [apiLimiter]"
    using h5 admission_layers [of ?health "''203.0.113.7''"] by simp
  show ?thesis
    by (intro conjI c1 c2 c3 c4 c5)
qed

section \<open>A malformed session identity\<close>


lemma not_rethrown_invalid_format: "\<not> rethrown_as_is (Error ''Invalid session ID format'')"
  by (simp add: rethrown_as_is_def)

lemma processMessage_valid:
  "is_string m \<Longrightarrow> trim (str_of m) \<noteq> [] \<Longrightarrow> length (trim (str_of m)) \<le> 5000 \<Longrightarrow>
   processMessage e \<lparr>message = m, sessionId = sid\<rparr> w =
     (case processMessage_try e \<lparr>message = m, sessionId = sid\<rparr> (trim (str_of m)) w of
        (Inl error, w1) \<Rightarrow> (Inl (processMessage_catch error), w1)
      | (Inr result, w1) \<Rightarrow> (Inr result, w1))"
  by (cases m) (auto simp: processMessage_def Let_def MAX_MESSAGE_LENGTH_def trim_Nil)

lemma processMessage_malformed_sessionId:
  assumes "is_string m" "trim (str_of m) \<noteq> []" "length (trim (str_of m)) \<le> 5000"
    and "sid \<noteq> []" "\<not> uuidValidate e sid"
  shows "processMessage e \<lparr>message = m, sessionId = JStr sid\<rparr> w =
     (Inl (Error ''Database error. Please try again later.''), w)"
proof -
  have "processMessage_try e \<lparr>message = m, sessionId = JStr sid\<rparr> (trim (str_of m)) w =
      (Inl (Error ''Invalid session ID format''), w)"
    using assms(4,5)
    by (simp add: processMessage_try_def getOrCreateConversation_def andThen_def lift_result_def
        validateSessionId_malformed)
  then show ?thesis
    using assms(1-3)
    by (simp add: processMessage_valid processMessage_catch_def not_rethrown_invalid_format)
qed

lemma trim_hello: "trim ''hello'' = ''hello''"
  by code_simp

text \<open>
  Claim C4 at the session identity \<open>not-a-uuid\<close>: \<open>validateSessionId\<close> throws
  \<open>Invalid session ID format\<close> inside the \<open>try\<close> block of \<open>processMessage\<close>, the \<open>catch\<close>
  block does not count that message among the ones it throws on unchanged, and the caller gets
  the storage error, although the store was never called. The route, which validates the
  identity itself before it calls \<open>processMessage\<close>, answers the same request with status 400
  and the format message outside production.
\<close>

theorem malformed_sessionId_surfaces_as_database_error:
  "processMessage (sample_env (completion_with ''Hi there!''))
       \<lparr>message = JStr ''hello'', sessionId = JStr ''not-a-uuid''\<rparr> empty_world =
     (Inl (Error ''Database error. Please try again later.''), empty_world) \<and>
   post_message False (sample_env (completion_with ''Hi there!''))
       \<lparr>message = JStr ''hello'', sessionId = JStr ''not-a-uuid''\<rparr> empty_world =
     (\<lparr>status = 400, body = ErrorBody ''Invalid session ID format''\<rparr>, empty_world)"
proof -
  have v: "\<not> uuidValidate (sample_env (completion_with ''Hi there!'')) ''not-a-uuid''"
    by (simp add: sample_env_def not_a_uuid)
  have "processMessage (sample_env (completion_with ''Hi there!''))
       \<lparr>message = JStr ''hello'', sessionId = JStr ''not-a-uuid''\<rparr> empty_world =
     (Inl (Error ''Database error. Please try again later.''), empty_world)"
    using v by (simp add: processMessage_malformed_sessionId trim_hello)
  moreover have "post_message False (sample_env (completion_with ''Hi there!''))
       \<lparr>message = JStr ''hello'', sessionId = JStr ''not-a-uuid''\<rparr> empty_world =
     (\<lparr>status = 400, body = ErrorBody ''Invalid session ID format''\<rparr>, empty_world)"
    using v
    by (simp add: post_message_def andThen_def lift_result_def validateSessionId_malformed
        message_status_def lower_invalid_format sanitizeErrorMessage_def)
  ultimately show ?thesis by simp
qed

theorem malformed_sessionId_surfaces_as_database_error_witness:
  "fst (processMessage (sample_env (completion_with ''Hi there!''))
         \<lparr>message = JStr ''hello'', sessionId = JStr ''not-a-uuid''\<rparr> empty_world) =
     Inl (Error ''Database error. Please try again later.'') \<and>
   status (fst (post_message False (sample_env (completion_with ''Hi there!''))
         \<lparr>message = JStr ''hello'', sessionId = JStr ''not-a-uuid''\<rparr> empty_world)) = 400"
  using malformed_sessionId_surfaces_as_database_error by simp

section \<open>A well-formed session identity that is not stored\<close>









section \<open>The errors that processMessage surfaces\<close>

lemma consumed_trans_Inr:
  "consumed w w1 (Inr a) \<Longrightarrow> consumed w1 w2 r \<Longrightarrow> consumed w w2 r"
proof -
  assume 1: "consumed w w1 (Inr a)" and 2: "consumed w1 w2 r"
  from 1 obtain k where k: "faults w = replicate k None @ faults w1"
    by (auto simp: consumed_def)
  show ?thesis
  proof (cases r)
    case (Inl f)
    with 2 obtain j where "faults w1 = replicate j None @ Some f # faults w2"
      by (auto simp: consumed_def)
    with k have "faults w = replicate (k + j) None @ Some f # faults w2"
      by (simp add: replicate_add)
    with Inl show ?thesis unfolding consumed_def by auto
  next
    case (Inr b)
    with 2 obtain j where "faults w1 = replicate j None @ faults w2"
      by (auto simp: consumed_def)
    with k have "faults w = replicate (k + j) None @ faults w2"
      by (simp add: replicate_add)
    with Inr show ?thesis unfolding consumed_def by auto
  qed
qed

lemma fails_only_by_fault_andThen:
  assumes "fails_only_by_fault m" and "\<And>a. fails_only_by_fault (f a)"
  shows "fails_only_by_fault (andThen m f)"
  unfolding fails_only_by_fault_def
proof (intro allI impI)
  fix w r w2
  assume run: "andThen m f w = (r, w2)"
  obtain r1 w1 where m: "m w = (r1, w1)" by (cases "m w")
  then have c1: "consumed w w1 r1" using assms(1) by (simp add: fails_only_by_fault_def)
  show "consumed w w2 r"
  proof (cases r1)
    case (Inl e)
    with run m have "r = Inl e" "w2 = w1" by (simp_all add: andThen_def)
    with c1 Inl show ?thesis by (simp add: consumed_def)
  next
    case (Inr a)
    with run m have "f a w1 = (r, w2)" by (simp add: andThen_def)
    then have c2: "consumed w1 w2 r" using assms(2) by (simp add: fails_only_by_fault_def)
    from c1 Inr have "consumed w w1 (Inr a :: thrown + 'a)" by simp
    then show ?thesis using c2 by (rule consumed_trans_Inr)
  qed
qed

lemma fails_only_by_fault_returns: "fails_only_by_fault (returns a)"
proof -
  have "faults w = replicate 0 None @ faults w" for w :: world by simp
  then show ?thesis
    unfolding fails_only_by_fault_def returns_def consumed_def by auto
qed

lemma fails_only_by_fault_store_call:
  assumes "\<And>w. faults (snd (op w)) = faults w"
  shows "fails_only_by_fault (store_call ev op)"
  unfolding fails_only_by_fault_def
proof (intro allI impI)
  fix w r w1
  assume run: "store_call ev op w = (r, w1)"
  let ?w0 = "w\<lparr>faults := tl (faults w), trace := trace w @ [ev]\<rparr>"
  show "consumed w w1 r"
  proof (cases "next_fault w")
    case None
    with run have r: "r = Inr (fst (op ?w0))" and w1: "w1 = snd (op ?w0)"
      by (auto simp: store_call_def Let_def split: prod.splits)
    have f1: "faults w1 = tl (faults w)" using w1 assms [of ?w0] by simp
    have "faults w = replicate (length (faults w) - length (tl (faults w))) None @ tl (faults w)"
      using None by (cases "faults w") (simp_all add: next_fault_def)
    with f1 r show ?thesis unfolding consumed_def by auto
  next
    case (Some f)
    with run have r: "r = Inl f" and w1: "w1 = ?w0"
      by (auto simp: store_call_def Let_def)
    have "faults w = replicate 0 None @ Some f # tl (faults w)"
      using Some by (cases "faults w") (simp_all add: next_fault_def)
    with r w1 show ?thesis unfolding consumed_def by auto
  qed
qed

lemma fails_only_by_fault_ops:
  "fails_only_by_fault (conversation_findUnique ident)"
  "fails_only_by_fault (conversation_create e)"
  "fails_only_by_fault (message_create e cid s t)"
  "fails_only_by_fault (message_findMany cid)"
  unfolding conversation_findUnique_def conversation_create_def message_create_def
    message_findMany_def
  by (rule fails_only_by_fault_store_call; simp add: Let_def)+

lemma fails_only_by_fault_generateResponse: "fails_only_by_fault (generateResponse e h)"
  unfolding fails_only_by_fault_def
proof (intro allI impI)
  fix w r w1
  assume run: "generateResponse e h w = (r, w1)"
  obtain answer where "generateResponse e h w =
      (Inr answer, w\<lparr>trace := trace w @ [CompletionsCreate (messages_for h)]\<rparr>)"
    using generateResponse_total by blast
  with run have "r = Inr answer" "faults w1 = faults w" by auto
  moreover have "faults w = replicate 0 None @ faults w" by simp
  ultimately show "consumed w w1 r" unfolding consumed_def by auto
qed

lemma fails_only_by_fault_newConversationId: "fails_only_by_fault (newConversationId e)"
  unfolding newConversationId_def
  by (intro fails_only_by_fault_andThen fails_only_by_fault_ops fails_only_by_fault_returns)

lemma fails_only_by_fault_saveAndReply: "fails_only_by_fault (saveAndReply e t cid)"
  unfolding saveAndReply_def
  by (intro fails_only_by_fault_andThen fails_only_by_fault_ops fails_only_by_fault_returns
      fails_only_by_fault_generateResponse)

lemma fails_only_by_fault_lookup:
  "fails_only_by_fault
     (andThen (conversation_findUnique sid)
        (\<lambda>existing. case existing of None \<Rightarrow> newConversationId e | Some c \<Rightarrow> returns sid))"
proof (rule fails_only_by_fault_andThen)
  show "fails_only_by_fault (conversation_findUnique sid)" by (rule fails_only_by_fault_ops)
  show "fails_only_by_fault (case a of None \<Rightarrow> newConversationId e | Some c \<Rightarrow> returns sid)"
    for a :: "conversation_row option"
    by (cases a) (simp_all add: fails_only_by_fault_newConversationId fails_only_by_fault_returns)
qed

lemma validateSessionId_errors:
  "validateSessionId v x = Inl err \<Longrightarrow>
   err = Error ''Session ID is required'' \<or> err = Error ''Invalid session ID format''"
  by (auto simp: validateSessionId_def split: jsval.splits if_splits)

lemma processMessage_try_run:
  assumes "processMessage_try e input t w = (r, w2)"
  shows "(w2 = w \<and> (r = Inl (Error ''Session ID is required'') \<or>
                     r = Inl (Error ''Invalid session ID format''))) \<or>
         consumed w w2 r"
proof (cases "truthy (sessionId input)")
  case False
  then have "processMessage_try e input t = andThen (newConversationId e) (saveAndReply e t)"
    by (simp add: processMessage_try_def getOrCreateConversation_def)
  moreover have "fails_only_by_fault (andThen (newConversationId e) (saveAndReply e t))"
    by (intro fails_only_by_fault_andThen fails_only_by_fault_newConversationId
        fails_only_by_fault_saveAndReply)
  ultimately show ?thesis using assms by (simp add: fails_only_by_fault_def)
next
  case True
  show ?thesis
  proof (cases "validateSessionId (uuidValidate e) (sessionId input)")
    case (Inl err)
    with True assms have "r = Inl err" "w2 = w"
      by (simp_all add: processMessage_try_def getOrCreateConversation_def andThen_def
          lift_result_def)
    with Inl show ?thesis using validateSessionId_errors by blast
  next
    case (Inr u)
    with True have "processMessage_try e input t =
      andThen (andThen (conversation_findUnique (str_of (sessionId input)))
        (\<lambda>existing. case existing of None \<Rightarrow> newConversationId e
           | Some c \<Rightarrow> returns (str_of (sessionId input)))) (saveAndReply e t)"
      by (auto simp: processMessage_try_def getOrCreateConversation_def andThen_def
          lift_result_def fun_eq_iff)
    moreover have "fails_only_by_fault
      (andThen (andThen (conversation_findUnique (str_of (sessionId input)))
        (\<lambda>existing. case existing of None \<Rightarrow> newConversationId e
           | Some c \<Rightarrow> returns (str_of (sessionId input)))) (saveAndReply e t))"
      by (intro fails_only_by_fault_andThen fails_only_by_fault_lookup
          fails_only_by_fault_saveAndReply)
    ultimately show ?thesis using assms by (simp add: fails_only_by_fault_def)
  qed
qed

lemma rethrown_session_required: "rethrown_as_is (Error ''Session ID is required'')"
  by (simp add: rethrown_as_is_def)

lemma processMessage_run_Inl:
  assumes "processMessage e input w = (Inl err, w2)"
  shows "(w2 = w \<and>
          (err = Error ''Message is required and must be a string'' \<or>
           err = Error ''Message cannot be empty'' \<or>
           err = Error ''Message exceeds maximum length of 5000 characters'')) \<or>
         (\<exists>f. processMessage_try e input (trim (str_of (message input))) w = (Inl f, w2) \<and>
              err = processMessage_catch f)"
proof -
  let ?t = "trim (str_of (message input))"
  consider "\<not> truthy (message input) \<or> \<not> is_string (message input)"
    | "truthy (message input)" "is_string (message input)" "length ?t = 0"
    | "truthy (message input)" "is_string (message input)" "length ?t \<noteq> 0"
      "length ?t > MAX_MESSAGE_LENGTH"
    | "truthy (message input)" "is_string (message input)" "length ?t \<noteq> 0"
      "\<not> length ?t > MAX_MESSAGE_LENGTH"
    by blast
  then show ?thesis
  proof cases
    case 1
    with assms have "w2 = w \<and> err = Error ''Message is required and must be a string''"
      by (simp add: processMessage_def)
    then show ?thesis by (intro disjI1) simp
  next
    case 2
    with assms have "w2 = w \<and> err = Error ''Message cannot be empty''"
      by (simp add: processMessage_def)
    then show ?thesis by (intro disjI1) simp
  next
    case 3
    with assms have "w2 = w \<and> err = Error ''Message exceeds maximum length of 5000 characters''"
      by (simp add: processMessage_def Let_def decimal_max_length MAX_MESSAGE_LENGTH_def)
    then show ?thesis by (intro disjI1) simp
  next
    case 4
    obtain r1 w1 where t: "processMessage_try e input ?t w = (r1, w1)"
      by (cases "processMessage_try e input ?t w")
    show ?thesis
    proof (cases r1)
      case (Inl f)
      with 4 t assms have "w2 = w1 \<and> err = processMessage_catch f"
        by (simp add: processMessage_def Let_def)
      with t Inl show ?thesis by (intro disjI2 exI [of _ f]) simp
    next
      case (Inr x)
      with 4 t assms show ?thesis by (simp add: processMessage_def Let_def)
    qed
  qed
qed

lemma processMessage_run_Inr:
  assumes "processMessage e input w = (Inr r, w2)"
  shows "processMessage_try e input (trim (str_of (message input))) w = (Inr r, w2)"
proof -
  from processMessage_Inr [OF assms] obtain w1 where
    "getOrCreateConversation e input w = (Inr (resp_sessionId r), w1)"
    "saveAndReply e (trim (str_of (message input))) (resp_sessionId r) w1 = (Inr r, w2)"
    by blast
  then show ?thesis by (simp add: processMessage_try_def andThen_def)
qed

lemma sample_run_refused:
  "processMessage (sample_env (completion_with ''Hi there!'')) sample_input refused_world =
     (Inl (Error ''Database error. Please try again later.''), refused_world_after)"
  by code_simp

text \<open>
  Every run of \<open>processMessage\<close> that fails is of one of two kinds. Either no store call
  was made and the error is one of the three message validation errors,
  \<open>Session ID is required\<close> or the storage error; or the run ended at the first store call
  that failed: every store call before it succeeded, and the error surfaced is the thrown
  value itself if its message contains \<open>required\<close>, \<open>cannot be empty\<close>,
  \<open>exceeds maximum\<close>, \<open>API key\<close> or \<open>Rate limit\<close>, and the one storage error
  \<open>Database error. Please try again later.\<close> otherwise. When \<open>processMessage\<close>
  succeeds, no store call of the run failed.
\<close>

lemma send_error_taxonomy:
  "(processMessage e input w = (Inl err, w2) \<longrightarrow>
      (w2 = w \<and>
       (err = Error ''Message is required and must be a string'' \<or>
        err = Error ''Message cannot be empty'' \<or>
        err = Error ''Message exceeds maximum length of 5000 characters'' \<or>
        err = Error ''Session ID is required'' \<or>
        err = Error ''Database error. Please try again later.'')) \<or>
      (\<exists>k f. faults w = replicate k None @ Some f # faults w2 \<and>
             err = (if rethrown_as_is f then f
                    else Error ''Database error. Please try again later.''))) \<and>
   (processMessage e input w = (Inr r, w2) \<longrightarrow>
      (\<exists>k. faults w = replicate k None @ faults w2))"
proof (intro conjI impI)
  assume run: "processMessage e input w = (Inl err, w2)"
  let ?t = "trim (str_of (message input))"
  let ?A = "w2 = w \<and>
       (err = Error ''Message is required and must be a string'' \<or>
        err = Error ''Message cannot be empty'' \<or>
        err = Error ''Message exceeds maximum length of 5000 characters'' \<or>
        err = Error ''Session ID is required'' \<or>
        err = Error ''Database error. Please try again later.'')"
  let ?B = "\<exists>k f. faults w = replicate k None @ Some f # faults w2 \<and>
             err = (if rethrown_as_is f then f
                    else Error ''Database error. Please try again later.'')"
  from processMessage_run_Inl [OF run]
  show "?A \<or> ?B"
  proof (elim disjE exE conjE)
    assume "w2 = w" "err = Error ''Message is required and must be a string''"
    then have ?A by (intro conjI disjI1)
    then show ?thesis ..
  next
    assume "w2 = w" "err = Error ''Message cannot be empty''"
    then have ?A by (intro conjI disjI2 disjI1)
    then show ?thesis ..
  next
    assume "w2 = w" "err = Error ''Message exceeds maximum length of 5000 characters''"
    then have ?A by (intro conjI disjI2 disjI1)
    then show ?thesis ..
  next
    fix f
    assume t: "processMessage_try e input ?t w = (Inl f, w2)" and c: "err = processMessage_catch f"
    from processMessage_try_run [OF t]
    show ?thesis
    proof (elim disjE conjE)
      assume "w2 = w" "(Inl f :: thrown + ChatResponse) = Inl (Error ''Session ID is required'')"
      then have "w2 = w" "f = Error ''Session ID is required''" by (simp_all only: sum.inject)
      with c have "w2 = w" "err = Error ''Session ID is required''"
        by (simp_all only: processMessage_catch_def rethrown_session_required if_True)
      then have ?A by (intro conjI disjI2 disjI1)
      then show ?thesis ..
    next
      assume "w2 = w" "(Inl f :: thrown + ChatResponse) = Inl (Error ''Invalid session ID format'')"
      then have "w2 = w" "f = Error ''Invalid session ID format''" by (simp_all only: sum.inject)
      with c have "w2 = w" "err = Error ''Database error. Please try again later.''"
        by (simp_all only: processMessage_catch_def not_rethrown_invalid_format if_False)
      then have ?A by (intro conjI disjI2)
      then show ?thesis ..
    next
      assume "consumed w w2 (Inl f :: thrown + ChatResponse)"
      then obtain k where "faults w = replicate k None @ Some f # faults w2"
        unfolding consumed_def by (simp only: sum.case) blast
      with c have ?B unfolding processMessage_catch_def by blast
      then show ?thesis ..
    qed
  qed
next
  assume run: "processMessage e input w = (Inr r, w2)"
  from processMessage_try_run [OF processMessage_run_Inr [OF run]]
  show "\<exists>k. faults w = replicate k None @ faults w2"
    unfolding consumed_def by (elim disjE conjE) (simp_all only: sum.case sum.distinct)
qed

lemma send_error_taxonomy_sample:
  "processMessage (sample_env (completion_with ''Hi there!'')) sample_input refused_world =
     (Inl (Error ''Database error. Please try again later.''), refused_world_after) \<and>
   (\<exists>k f. faults refused_world = replicate k None @ Some f # faults refused_world_after \<and>
      Error ''Database error. Please try again later.'' =
        (if rethrown_as_is f then f else Error ''Database error. Please try again later.'')) \<and>
   processMessage (sample_env (completion_with ''Hi there!'')) sample_input empty_world =
     (Inr \<lparr>reply = ''Hi there!'', resp_sessionId = sample_conversation\<rparr>,
      world_after ''Hi there!'') \<and>
   (\<exists>k. faults empty_world = replicate k None @ faults (world_after ''Hi there!''))"
proof -
  note t = send_error_taxonomy
    [of "sample_env (completion_with ''Hi there!'')" sample_input]
  have d: "refused_world_after \<noteq> refused_world" by code_simp
  from t [of refused_world "Error ''Database error. Please try again later.''"
      refused_world_after, THEN conjunct1, THEN mp, OF sample_run_refused] d
  have 1: "\<exists>k f. faults refused_world = replicate k None @ Some f # faults refused_world_after \<and>
      Error ''Database error. Please try again later.'' =
        (if rethrown_as_is f then f else Error ''Database error. Please try again later.'')"
    by blast
  from t [of empty_world _ "world_after ''Hi there!''"
      "\<lparr>reply = ''Hi there!'', resp_sessionId = sample_conversation\<rparr>",
      THEN conjunct2, THEN mp, OF sample_run_reply]
  have 2: "\<exists>k. faults empty_world = replicate k None @ faults (world_after ''Hi there!'')" .
  show ?thesis
    by (intro conjI sample_run_refused 1 sample_run_reply 2)
qed

text \<open>
  Claim C7 at a store whose first call fails with \<open>SSL connection is required\<close>, the answer
  of a database that insists on an encrypted connection: the message contains \<open>required\<close>,
  so the \<open>catch\<close> block, whose comments say that validation errors are thrown on and
  database errors are wrapped, takes the database error for a validation error and throws it
  on unchanged. The caller of \<open>processMessage\<close> gets the database's own text instead of the
  storage error, and so does the client of the message route, in production too, with
  status 400.
\<close>

theorem storage_detail_reaches_caller:
  "processMessage (sample_env (completion_with ''Hi there!'')) sample_input
       (empty_world\<lparr>faults := [Some (Error ''SSL connection is required'')]\<rparr>) =
     (Inl (Error ''SSL connection is required''), empty_world\<lparr>trace := [ConversationCreate]\<rparr>) \<and>
   Error ''SSL connection is required'' \<noteq> Error ''Database error. Please try again later.'' \<and>
   fst (post_message True (sample_env (completion_with ''Hi there!'')) sample_input
       (empty_world\<lparr>faults := [Some (Error ''SSL connection is required'')]\<rparr>)) =
     \<lparr>status = 400, body = ErrorBody ''SSL connection is required''\<rparr>"
  by code_simp

theorem storage_detail_reaches_caller_witness:
  "fst (processMessage (sample_env (completion_with ''Hi there!'')) sample_input
       (empty_world\<lparr>faults := [Some (Error ''SSL connection is required'')]\<rparr>)) =
     Inl (Error ''SSL connection is required'') \<and>
   body (fst (post_message True (sample_env (completion_with ''Hi there!'')) sample_input
       (empty_world\<lparr>faults := [Some (Error ''SSL connection is required'')]\<rparr>))) =
     ErrorBody ''SSL connection is required''"
  using storage_detail_reaches_caller by simp

section \<open>The clock condition is an invariant\<close>

text \<open>
  The condition \<open>clock_ok\<close> holds of the empty store (\<open>clock_ok_empty_world\<close>) and is kept by
  every run of \<open>processMessage\<close>, whether it returns or throws.
\<close>

lemma keeps_clock_andThen:
  assumes "keeps_clock m" and "\<And>a. keeps_clock (f a)"
  shows "keeps_clock (andThen m f)"
  unfolding keeps_clock_def
proof (intro allI impI)
  fix w r w2
  assume run: "andThen m f w = (r, w2)" and ok: "clock_ok w"
  obtain r1 w1 where m: "m w = (r1, w1)" by (cases "m w")
  then have ok1: "clock_ok w1" using assms(1) ok by (auto simp: keeps_clock_def)
  show "clock_ok w2"
  proof (cases r1)
    case (Inl err)
    with run m have "w2 = w1" by (simp add: andThen_def)
    with ok1 show ?thesis by simp
  next
    case (Inr a)
    with run m have "f a w1 = (r, w2)" by (simp add: andThen_def)
    with ok1 show ?thesis using assms(2) [of a] by (auto simp: keeps_clock_def)
  qed
qed

lemma keeps_clock_store_call:
  assumes "\<And>w. clock_ok w \<Longrightarrow> clock_ok (snd (op w))"
  shows "keeps_clock (store_call ev op)"
  unfolding keeps_clock_def
proof (intro allI impI)
  fix w r w1
  assume run: "store_call ev op w = (r, w1)" and ok: "clock_ok w"
  let ?w0 = "w\<lparr>faults := tl (faults w), trace := trace w @ [ev]\<rparr>"
  have ok0: "clock_ok ?w0" using ok by (simp add: clock_ok_def)
  show "clock_ok w1"
  proof (cases "next_fault w")
    case None
    with run have "w1 = snd (op ?w0)"
      by (auto simp: store_call_def Let_def split: prod.splits)
    with ok0 show ?thesis using assms by simp
  next
    case (Some f)
    with run have "w1 = ?w0" by (auto simp: store_call_def Let_def)
    with ok0 show ?thesis by simp
  qed
qed

lemma keeps_clock_ops:
  "keeps_clock (conversation_findUnique ident)"
  "keeps_clock (conversation_create e)"
  "keeps_clock (message_create e cid s t)"
  "keeps_clock (message_findMany cid)"
  unfolding conversation_findUnique_def conversation_create_def message_create_def
    message_findMany_def
  by (rule keeps_clock_store_call; auto simp: Let_def clock_ok_def list_all_iff)+

lemma keeps_clock_simple: "keeps_clock (returns a)" "keeps_clock (lift_result x)"
  by (simp_all add: keeps_clock_def returns_def lift_result_def)

lemma keeps_clock_generateResponse: "keeps_clock (generateResponse e h)"
  unfolding keeps_clock_def
proof (intro allI impI)
  fix w r w1
  assume "generateResponse e h w = (r, w1)" and ok: "clock_ok w"
  then have "w1 = w\<lparr>trace := trace w @ [CompletionsCreate (messages_for h)]\<rparr>"
    using generateResponse_total [of e h w] by auto
  with ok show "clock_ok w1" by (simp add: clock_ok_def)
qed

lemma keeps_clock_processMessage_try: "keeps_clock (processMessage_try e input t)"
proof -
  have n: "keeps_clock (newConversationId e)"
    unfolding newConversationId_def
    by (intro keeps_clock_andThen keeps_clock_ops keeps_clock_simple)
  have c: "keeps_clock (case a of None \<Rightarrow> newConversationId e
      | Some c \<Rightarrow> returns (str_of (sessionId input)))" for a :: "conversation_row option"
    by (cases a) (simp_all add: n keeps_clock_simple)
  have g: "keeps_clock (getOrCreateConversation e input)"
    unfolding getOrCreateConversation_def
    by (auto intro!: keeps_clock_andThen keeps_clock_ops keeps_clock_simple n c)
  have s: "keeps_clock (saveAndReply e t cid)" for cid
    unfolding saveAndReply_def
    by (intro keeps_clock_andThen keeps_clock_ops keeps_clock_simple
        keeps_clock_generateResponse)
  show ?thesis unfolding processMessage_try_def
    by (intro keeps_clock_andThen g s)
qed

lemma clock_ok_processMessage:
  assumes "processMessage e input w = (r, w2)" and "clock_ok w"
  shows "clock_ok w2"
proof (cases r)
  case (Inl err)
  with assms(1) processMessage_run_Inl [of e input w err w2]
  consider "w2 = w"
    | f where "processMessage_try e input (trim (str_of (message input))) w = (Inl f, w2)"
    by blast
  then show ?thesis
  proof cases
    case 1
    with assms(2) show ?thesis by simp
  next
    case 2
    with assms(2) keeps_clock_processMessage_try [of e input "trim (str_of (message input))"]
    show ?thesis unfolding keeps_clock_def by blast
  qed
next
  case (Inr x)
  with assms(1) have "processMessage_try e input (trim (str_of (message input))) w = (Inr x, w2)"
    using processMessage_run_Inr by blast
  with assms(2) keeps_clock_processMessage_try [of e input "trim (str_of (message input))"]
  show ?thesis unfolding keeps_clock_def by blast
qed

end
